theory Spec2Isabelle
  imports Complex_Main "HOL-Library.Monad_Syntax" "HOL-Library.Log_Nat"
begin

section \<open>Conventions of the embedding\<close>

text \<open>
  The analyzer is JavaScript. A JS string is modelled by the list of the bytes of its UTF-8
  encoding (\<^typ>\<open>string\<close>). A JS number that the code obtains from \<^verbatim>\<open>parseInt\<close> or from
  an integer reply of the server is an \<^typ>\<open>int\<close>; it is taken to lie within \<open>\<plusminus> 2^53\<close>, where
  every integer is a double. Any other JS number is the exact value of its IEEE double, a
  rational (\<^typ>\<open>rat\<close>): a division or a multiplication rounds its exact result to the
  nearest double (\<open>double\<close> below). \<^verbatim>\<open>NaN\<close> and the infinities occur only where the code
  divides without a guard, and are modelled there. A thrown \<^verbatim>\<open>Error\<close> is its message, and a
  promise that rejects is the left injection of a sum.

  The functions of the Redis client (\<^verbatim>\<open>ioredis\<close>) are not part of the repository: the
  record \<open>redis\<close> below holds, for every command the analyzer issues, the reply of the
  server after \<^verbatim>\<open>parseInfoSection\<close> and \<^verbatim>\<open>parseInt\<close> have been applied to it.
\<close>

type_synonym error = string

datatype status = Ok | Warning | Critical

record titled =
  title :: string

record 'm check_section = titled +
  status :: status
  metrics :: "'m option"
  findings :: "string list"

section \<open>\<^verbatim>\<open>utils/thresholds.js\<close>\<close>

definition FRAGMENTATION_WARNING :: rat where "FRAGMENTATION_WARNING = 3 / 2"
definition FRAGMENTATION_CRITICAL :: rat where "FRAGMENTATION_CRITICAL = 2"
definition MEMORY_USAGE_WARNING_PERCENT :: int where "MEMORY_USAGE_WARNING_PERCENT = 75"
definition MEMORY_USAGE_CRITICAL_PERCENT :: int where "MEMORY_USAGE_CRITICAL_PERCENT = 90"
definition HIT_RATE_WARNING_PERCENT :: int where "HIT_RATE_WARNING_PERCENT = 90"
definition HIT_RATE_CRITICAL_PERCENT :: int where "HIT_RATE_CRITICAL_PERCENT = 70"
definition CLIENT_USAGE_WARNING_PERCENT :: int where "CLIENT_USAGE_WARNING_PERCENT = 80"
definition IDLE_CLIENT_THRESHOLD_SECONDS :: int where "IDLE_CLIENT_THRESHOLD_SECONDS = 300"
definition CLIENT_LIST_MAX_PARSE :: int where "CLIENT_LIST_MAX_PARSE = 5000"
definition NO_TTL_WARNING_PERCENT :: int where "NO_TTL_WARNING_PERCENT = 50"
definition DEFAULT_SCAN_COUNT :: int where "DEFAULT_SCAN_COUNT = 1000"
definition SCAN_BATCH_SIZE :: nat where "SCAN_BATCH_SIZE = 100"
definition PIPELINE_BATCH_SIZE :: nat where "PIPELINE_BATCH_SIZE = 50"
definition TOP_KEYS_COUNT :: nat where "TOP_KEYS_COUNT = 20"

section \<open>Doubles\<close>

text \<open>
  The rounding of IEEE 754 binary64 arithmetic, on exact values. \<open>floor_log2 x\<close> is the
  exponent \<open>e\<close> of a positive \<open>x\<close>, with \<open>2^e \<le> x < 2^(e+1)\<close>; the doubles of that binade
  are the multiples of \<open>2^(e-52)\<close>, and \<open>double x\<close> is the one nearest to \<open>x\<close>, the one
  with an even significand on a tie. Subnormal numbers and overflow (magnitudes below
  \<open>2^-1022\<close> or from \<open>2^1024\<close>) are outside the model. \<open>fdiv\<close> and \<open>fmul\<close> are the
  operators \<^verbatim>\<open>/\<close> and \<^verbatim>\<open>*\<close> of JavaScript on finite numbers with a divisor other than
  zero, and \<open>Math_round\<close> is \<^verbatim>\<open>Math.round\<close>, which rounds a half up.
\<close>

definition round_half_even :: "rat \<Rightarrow> int" where
  "round_half_even q =
     (let f = \<lfloor>q\<rfloor>; r = q - of_int f
      in if r < 1 / 2 then f else if r > 1 / 2 then f + 1 else if even f then f else f + 1)"

definition floor_log2 :: "rat \<Rightarrow> int" where
  "floor_log2 x =
     (let (p, q) = quotient_of x; e = bitlen p - bitlen q
      in if 2 powi e \<le> x then e else e - 1)"

definition double :: "rat \<Rightarrow> rat" where
  "double x =
     (if x = 0 then 0
      else let a = \<bar>x\<bar>; u = 2 powi (floor_log2 a - 52)
           in sgn x * of_int (round_half_even (a / u)) * u)"

definition fdiv :: "rat \<Rightarrow> rat \<Rightarrow> rat" where
  "fdiv x y = double (x / y)"

definition fmul :: "rat \<Rightarrow> rat \<Rightarrow> rat" where
  "fmul x y = double (x * y)"

definition Math_round :: "rat \<Rightarrow> int" where
  "Math_round x = \<lfloor>x + 1 / 2\<rfloor>"

section \<open>Numbers as text\<close>

definition digit_char :: "nat \<Rightarrow> char" where
  "digit_char d = ''0123456789'' ! d"

fun show_nat :: "nat \<Rightarrow> string" where
  "show_nat n = (if n < 10 then [digit_char n] else show_nat (n div 10) @ [digit_char (n mod 10)])"

declare show_nat.simps [simp del]

text \<open>\<^verbatim>\<open>String(n)\<close> and \<^verbatim>\<open>`${n}`\<close> for an integer \<open>n\<close>.\<close>

definition String :: "int \<Rightarrow> string" where
  "String i = (if i < 0 then ''-'' @ show_nat (nat (- i)) else show_nat (nat i))"

text \<open>
  \<^verbatim>\<open>Number.prototype.toFixed(d)\<close> for a number below \<open>10^21\<close>: the sign, then the
  integer \<open>n\<close> for which \<open>n / 10^d\<close> is nearest to the absolute value of the double (the
  larger \<open>n\<close> on a tie), written with \<open>d\<close> digits after the point. The receiver is a
  double: a rational that is not one stands for the double nearest to it, as a decimal
  literal does.
\<close>

definition pad_zeros :: "nat \<Rightarrow> string \<Rightarrow> string" where
  "pad_zeros d s = replicate (d - length s) (CHR ''0'') @ s"

definition toFixed :: "rat \<Rightarrow> nat \<Rightarrow> string" where
  "toFixed x d =
     (let v = double x;
          a = \<bar>v\<bar>;
          n = nat \<lfloor>a * 10 ^ d + 1 / 2\<rfloor>;
          m = show_nat (n div 10 ^ d) @ (if d = 0 then [] else ''.'' @ pad_zeros d (show_nat (n mod 10 ^ d)))
      in (if v < 0 then ''-'' else []) @ m)"

text \<open>\<^verbatim>\<open>formatPercent(value, decimals = 1)\<close> of \<^verbatim>\<open>utils/format.js\<close>.\<close>

definition formatPercent :: "rat \<Rightarrow> string" where
  "formatPercent v = toFixed v 1 @ ''%''"

text \<open>\<^verbatim>\<open>formatNumber\<close>: \<^verbatim>\<open>toLocaleString("en-US")\<close> of an integer, digits grouped by three.\<close>

fun group3 :: "string \<Rightarrow> string" where
  "group3 (a # b # c # d # rest) = a # b # c # CHR '','' # group3 (d # rest)"
| "group3 ds = ds"

definition formatNumber :: "int \<Rightarrow> string" where
  "formatNumber i =
     (if i < 0 then ''-'' else []) @ rev (group3 (rev (show_nat (nat \<bar>i\<bar>))))"

section \<open>\<^verbatim>\<open>utils/recommendations.js\<close>\<close>

subsection \<open>The patterns\<close>

text \<open>
  Every pattern of the table is a case-insensitive regular expression made of literal text
  and \<^verbatim>\<open>.*\<close>. \<^verbatim>\<open>RegExp.prototype.test\<close> succeeds when the pattern matches at some
  position of the text; \<^verbatim>\<open>.\<close> matches any character except a line terminator (LF, CR,
  U+2028, U+2029), and without the \<^verbatim>\<open>u\<close> flag a letter of the pattern matches only
  its own two ASCII cases.
\<close>

datatype re = Lit string | DotStar

definition canonicalize :: "char \<Rightarrow> char" where
  "canonicalize c =
     (let n = (of_char c :: nat) in if 97 \<le> n \<and> n \<le> 122 then char_of (n - 32) else c)"

definition lit_matches :: "string \<Rightarrow> string \<Rightarrow> bool" where
  "lit_matches l s =
     (length l \<le> length s \<and> map canonicalize (take (length l) s) = map canonicalize l)"

definition line_terminator_at :: "string \<Rightarrow> bool" where
  "line_terminator_at s =
     (take 1 s = [CHR 0x0A] \<or> take 1 s = [CHR 0x0D]
      \<or> take 3 s = [CHR 0xE2, CHR 0x80, CHR 0xA8] \<or> take 3 s = [CHR 0xE2, CHR 0x80, CHR 0xA9])"

fun dot_run :: "string \<Rightarrow> nat" where
  "dot_run [] = 0"
| "dot_run (c # cs) = (if line_terminator_at (c # cs) then 0 else Suc (dot_run cs))"

fun match_here :: "re list \<Rightarrow> string \<Rightarrow> bool" where
  "match_here [] s = True"
| "match_here (Lit l # p) s = (lit_matches l s \<and> match_here p (drop (length l) s))"
| "match_here (DotStar # p) s = list_ex (\<lambda>k. match_here p (drop k s)) [0..<Suc (dot_run s)]"

definition test :: "re list \<Rightarrow> string \<Rightarrow> bool" where
  "test p s = list_ex (\<lambda>k. match_here p (drop k s)) [0..<Suc (length s)]"

subsection \<open>The table\<close>

record recommendation = titled +
  actions :: "string list"

record recommendation_rule = recommendation +
  pattern :: "re list"

definition em_dash :: string where
  "em_dash = [CHR 0xE2, CHR 0x80, CHR 0x94]"

definition rule :: "re list \<Rightarrow> string \<Rightarrow> string list \<Rightarrow> recommendation_rule" where
  "rule p t a = \<lparr>title = t, actions = a, pattern = p\<rparr>"

definition RECOMMENDATION_MAP :: "recommendation_rule list" where
  "RECOMMENDATION_MAP =
   [rule [Lit ''fragmentation ratio'', DotStar, Lit ''is high'']
      ''Reduce memory fragmentation''
      [''Run MEMORY PURGE (Redis 4.0+) to release allocator pages'',
       ''If persistent, schedule a controlled restart during low-traffic window'',
       ''Consider switching to jemalloc allocator if using libc malloc''],
    rule [Lit ''memory usage at '', DotStar, Lit '' of maxmemory'']
      ''Free up memory or increase maxmemory''
      [''Review keys with no TTL '' @ em_dash @ '' add expiration where possible'',
       ''Check for oversized keys with the Key Pattern Analysis section'',
       ''If expected growth, increase maxmemory or scale the instance''],
    rule [Lit ''evicted keys detected'']
      ''Address key evictions''
      [''Evictions mean Redis is dropping data to stay within limits'',
       ''Increase maxmemory or reduce data volume'',
       ''Review eviction policy '' @ em_dash @ '' volatile-lru is safest for cache workloads''],
    rule [Lit ''fragmentation ratio'', DotStar, Lit ''is critically high'']
      ''Critical memory fragmentation''
      [''Immediate MEMORY PURGE recommended'',
       ''If ratio exceeds 3.0, plan a restart '' @ em_dash @ '' allocator is severely fragmented'',
       ''Monitor after fix to confirm it does not re-fragment quickly''],
    rule [Lit ''hit rate '', DotStar, Lit '' is below optimal'']
      ''Improve cache hit rate''
      [''Review application cache key patterns for consistency'',
       ''Check if TTLs are too short, causing premature expiration'',
       ''Verify cache warming on deployment if using lazy population''],
    rule [Lit ''hit rate '', DotStar, Lit '' is critically low'']
      ''Critical cache hit rate''
      [''Audit application code for cache key mismatches or typos'',
       ''Check if a recent deployment changed key naming conventions'',
       ''Consider preloading hot keys on startup''],
    rule [Lit ''slow log entries'', DotStar, Lit ''indicates systemic slow commands'']
      ''Address slow commands''
      [''Review the Slow Log table above for recurring command patterns'',
       ''Replace O(N) commands (KEYS, SMEMBERS on large sets) with SCAN variants'',
       ''Check for Lua scripts that block the event loop''],
    rule [Lit ''connections rejected'']
      ''Increase maxclients or reduce connections''
      [''Increase maxclients in Redis config if the instance has capacity'',
       ''Implement connection pooling in application clients'',
       ''Audit for connection leaks (clients not calling QUIT)''],
    rule [Lit ''client usage at '', DotStar, Lit '' of maxclients'']
      ''Client pool nearing capacity''
      [''Increase maxclients if the server has available file descriptors'',
       ''Review application connection pool sizes across all services'',
       ''Close idle connections '' @ em_dash @ '' see idle client count above''],
    rule [Lit ''clients idle for more than'']
      ''Clean up idle connections''
      [''Configure client timeout in Redis (CONFIG SET timeout 300)'',
       ''Review application connection pool idle settings'',
       ''Idle clients consume memory and file descriptors''],
    rule [Lit ''clients with output buffers exceeding'']
      ''Investigate large output buffers''
      [''Large buffers indicate slow consumers or massive responses'',
       ''Check for SUBSCRIBE clients that are not reading fast enough'',
       ''Review commands returning large datasets (LRANGE on long lists, etc.)''],
    rule [Lit ''blocked clients detected'']
      ''Investigate blocked clients''
      [''Blocked clients are waiting on BLPOP, BRPOP, or similar commands'',
       ''High counts may indicate stalled consumers or long-running blocking operations'',
       ''Check if blocking commands have appropriate timeouts''],
    rule [Lit ''keys have no TTL'', DotStar, Lit ''memory growth risk'']
      ''Add TTLs to reduce memory leak risk''
      [''Identify key prefixes without expiration in the Key Pattern section'',
       ''Add TTL to cache keys that don'' @ [CHR 0x27] @ ''t need permanent storage'',
       ''Use EXPIRE or SETEX instead of plain SET for cache entries''],
    rule [Lit ''replica '', DotStar, Lit '' has lag of'']
      ''Reduce replication lag''
      [''Check network latency between master and replica'',
       ''Reduce write volume if replica cannot keep up'',
       ''Consider increasing repl-backlog-size to avoid full resyncs''],
    rule [Lit ''master link status is'']
      ''Fix broken replication link''
      [''Check network connectivity between master and replica'',
       ''Review replica logs for authentication or timeout errors'',
       ''A full resync may be needed if the backlog has been exhausted''],
    rule [Lit ''last RDB background save failed'']
      ''Fix RDB persistence''
      [''Check disk space on the Redis server'',
       ''Review Redis logs for the specific save error'',
       ''Ensure the Redis process has write permissions to the RDB directory''],
    rule [Lit ''last AOF write failed'']
      ''Fix AOF persistence''
      [''Check disk space and I/O performance'',
       ''Review appendfsync setting '' @ em_dash @ '' everysec is recommended for most workloads'',
       ''If disk is full, clear space and run BGREWRITEAOF'']]"

subsection \<open>\<^verbatim>\<open>generateRecommendations\<close>\<close>

text \<open>
  The state of the two nested loops is the array \<^verbatim>\<open>recommendations\<close> and the set
  \<^verbatim>\<open>seen\<close>. \<open>visit_rule\<close> is the body of the inner loop, \<open>visit_finding\<close> the inner loop
  over a table, \<open>scan_findings\<close> the outer loop.
\<close>

type_synonym rec_state = "recommendation list \<times> string set"

definition visit_rule :: "string \<Rightarrow> rec_state \<Rightarrow> recommendation_rule \<Rightarrow> rec_state" where
  "visit_rule finding st r =
     (case st of (recommendations, seen) \<Rightarrow>
        if test (pattern r) finding \<and> title r \<notin> seen
        then (recommendations @ [\<lparr>title = title r, actions = actions r\<rparr>], insert (title r) seen)
        else (recommendations, seen))"

definition visit_finding :: "recommendation_rule list \<Rightarrow> rec_state \<Rightarrow> string \<Rightarrow> rec_state" where
  "visit_finding table st finding = foldl (visit_rule finding) st table"

definition scan_findings :: "recommendation_rule list \<Rightarrow> string list \<Rightarrow> recommendation list" where
  "scan_findings table allFindings = fst (foldl (visit_finding table) ([], {}) allFindings)"

definition generateRecommendations :: "'m check_section list \<Rightarrow> recommendation list" where
  "generateRecommendations sections =
     (let allFindings = concat (map findings sections)
      in scan_findings RECOMMENDATION_MAP allFindings)"

subsection \<open>What the loops compute\<close>

text \<open>
  The recommendation a rule stands for, the recommendations of all matching rules in the
  order the two loops visit them (findings first, the table within a finding), and the
  list that keeps of each title its first entry only. \<open>absorb\<close> is the effect of one
  matching rule on the state of the loops.
\<close>

definition recommend :: "recommendation_rule \<Rightarrow> recommendation" where
  "recommend r = \<lparr>title = title r, actions = actions r\<rparr>"

definition candidates :: "recommendation_rule list \<Rightarrow> string list \<Rightarrow> recommendation list" where
  "candidates table allFindings =
     concat (map (\<lambda>finding. map recommend (filter (\<lambda>r. test (pattern r) finding) table)) allFindings)"

fun first_by_title :: "recommendation list \<Rightarrow> recommendation list" where
  "first_by_title [] = []"
| "first_by_title (c # cs) = c # first_by_title (filter (\<lambda>d. title d \<noteq> title c) cs)"

definition absorb :: "rec_state \<Rightarrow> recommendation \<Rightarrow> rec_state" where
  "absorb st c = (case st of (recommendations, seen) \<Rightarrow>
      if title c \<notin> seen then (recommendations @ [c], insert (title c) seen) else (recommendations, seen))"

text \<open>A key-sampling section with the finding of the no-TTL rule, and the rule it matches.\<close>

definition no_ttl_rule :: recommendation_rule where
  "no_ttl_rule = rule [Lit ''keys have no TTL'', DotStar, Lit ''memory growth risk'']
      ''Add TTLs to reduce memory leak risk''
      [''Identify key prefixes without expiration in the Key Pattern section'',
       ''Add TTL to cache keys that don'' @ [CHR 0x27] @ ''t need permanent storage'',
       ''Use EXPIRE or SETEX instead of plain SET for cache entries'']"

definition no_ttl_section :: "unit check_section" where
  "no_ttl_section = \<lparr>title = ''KEY PATTERN ANALYSIS'', status = Warning, metrics = None,
     findings = [''60.0% of sampled keys have no TTL - potential memory growth risk'']\<rparr>"

section \<open>\<^verbatim>\<open>utils/comparison.js\<close>\<close>

text \<open>
  \<^verbatim>\<open>formatDelta\<close> returns a coloured string, \<^verbatim>\<open>color(`${direction} ${absFormatted}`)\<close>
  or \<^verbatim>\<open>dim("\<rightarrow> unchanged")\<close>. The model keeps its three parts apart: the colour function
  (\<^verbatim>\<open>dim\<close>, \<^verbatim>\<open>green\<close>, \<^verbatim>\<open>red\<close>), the arrow and the text after the arrow. The arrow is the
  direction of the change and the colour green marks an improvement.
\<close>

datatype colour = Dim | Green | Red

datatype arrow = ArrowRight | ArrowUp | ArrowDown

record delta_cell =
  colour :: colour
  arrow :: arrow
  amount :: string

definition formatDelta :: "rat \<Rightarrow> rat \<Rightarrow> bool \<Rightarrow> (rat \<Rightarrow> string) \<Rightarrow> delta_cell" where
  "formatDelta current previous higherIsBetter formatter =
     (let delta = current - previous in
      if delta = 0 then \<lparr>colour = Dim, arrow = ArrowRight, amount = ''unchanged''\<rparr>
      else
        let direction = (if delta > 0 then ArrowUp else ArrowDown);
            absFormatted = formatter \<bar>delta\<bar>;
            isGood = (if higherIsBetter then delta > 0 else delta < 0);
            color = (if isGood then Green else Red)
        in \<lparr>colour = color, arrow = direction, amount = absFormatted\<rparr>)"

text \<open>
  A report as \<^verbatim>\<open>printComparison\<close> reads it: for each section the numeric fields of its
  \<^verbatim>\<open>metrics\<close> object by name (\<open>None\<close> when the section or its \<^verbatim>\<open>metrics\<close> is absent, a
  name unbound when the field is \<^verbatim>\<open>undefined\<close>), and the two counts of \<^verbatim>\<open>summary\<close>.
\<close>

type_synonym metrics_object = "string \<rightharpoonup> rat"

record summary_counts =
  summary_warnings :: rat
  summary_critical :: rat

record snapshot =
  memory :: "metrics_object option"
  performance :: "metrics_object option"
  connections :: "metrics_object option"
  summary :: "summary_counts option"

text \<open>A row of the table: metric, previous value, current value, change.\<close>

type_synonym comparison_row = "string \<times> string \<times> string \<times> delta_cell"

text \<open>
  \<^verbatim>\<open>if (c.x !== undefined && p.x !== undefined) rows.push([label, f(p.x), f(c.x),
  formatDelta(c.x, p.x, {higherIsBetter, formatter: f})])\<close>, the step that
  \<^verbatim>\<open>printComparison\<close> repeats for every metric.
\<close>

definition metric_row ::
  "string \<Rightarrow> rat option \<Rightarrow> rat option \<Rightarrow> bool \<Rightarrow> (rat \<Rightarrow> string) \<Rightarrow> comparison_row list" where
  "metric_row label c p higherIsBetter formatter =
     (case (c, p) of
        (Some cv, Some pv) \<Rightarrow>
          [(label, formatter pv, formatter cv, formatDelta cv pv higherIsBetter formatter)]
      | _ \<Rightarrow> [])"

text \<open>
  The rows \<^verbatim>\<open>printComparison\<close> builds before it prints them. \<^verbatim>\<open>formatBytes\<close> takes a
  logarithm and \<^verbatim>\<open>String\<close> prints a double; both are parameters here.
\<close>

definition memory_rows :: "(rat \<Rightarrow> string) \<Rightarrow> snapshot \<Rightarrow> snapshot \<Rightarrow> comparison_row list" where
  "memory_rows formatBytes current previous =
     (case (memory current, memory previous) of
        (Some cm, Some pm) \<Rightarrow>
          metric_row ''Memory Used'' (cm ''usedMemory'') (pm ''usedMemory'') False formatBytes
          @ metric_row ''Fragmentation'' (cm ''fragmentationRatio'') (pm ''fragmentationRatio'')
              False (\<lambda>n. toFixed n 2)
          @ metric_row ''Memory Utilization'' (cm ''memoryUtilization'') (pm ''memoryUtilization'')
              False formatPercent
      | _ \<Rightarrow> [])"

definition performance_rows :: "(rat \<Rightarrow> string) \<Rightarrow> snapshot \<Rightarrow> snapshot \<Rightarrow> comparison_row list" where
  "performance_rows toString current previous =
     (case (performance current, performance previous) of
        (Some cp, Some pp) \<Rightarrow>
          metric_row ''Hit Rate'' (cp ''hitRate'') (pp ''hitRate'') True formatPercent
          @ metric_row ''Operations/sec'' (cp ''opsPerSecond'') (pp ''opsPerSecond'') True toString
          @ metric_row ''Slow Log Entries'' (cp ''slowLogLength'') (pp ''slowLogLength'') False toString
      | _ \<Rightarrow> [])"

definition connection_rows :: "(rat \<Rightarrow> string) \<Rightarrow> snapshot \<Rightarrow> snapshot \<Rightarrow> comparison_row list" where
  "connection_rows toString current previous =
     (case (connections current, connections previous) of
        (Some cc, Some pc) \<Rightarrow>
          metric_row ''Connected Clients'' (cc ''connectedClients'') (pc ''connectedClients'')
            False toString
      | _ \<Rightarrow> [])"

definition summary_rows :: "(rat \<Rightarrow> string) \<Rightarrow> snapshot \<Rightarrow> snapshot \<Rightarrow> comparison_row list" where
  "summary_rows toString current previous =
     (case (summary current, summary previous) of
        (Some cs, Some ps) \<Rightarrow>
          [(''Warnings'', toString (summary_warnings ps), toString (summary_warnings cs),
              formatDelta (summary_warnings cs) (summary_warnings ps) False toString),
           (''Critical Issues'', toString (summary_critical ps), toString (summary_critical cs),
              formatDelta (summary_critical cs) (summary_critical ps) False toString)]
      | _ \<Rightarrow> [])"

definition comparison_rows ::
  "(rat \<Rightarrow> string) \<Rightarrow> (rat \<Rightarrow> string) \<Rightarrow> snapshot \<Rightarrow> snapshot \<Rightarrow> comparison_row list" where
  "comparison_rows formatBytes toString current previous =
     memory_rows formatBytes current previous
     @ performance_rows toString current previous
     @ connection_rows toString current previous
     @ summary_rows toString current previous"

text \<open>
  The reading of a cell that the comparison claim speaks of: the opposite direction, and the
  opposite verdict on a change; an unchanged cell is its own opposite. A row with the two
  snapshots exchanged has its two value columns exchanged and its cell flipped.
\<close>

fun negate_arrow :: "arrow \<Rightarrow> arrow" where
  "negate_arrow ArrowRight = ArrowRight"
| "negate_arrow ArrowUp = ArrowDown"
| "negate_arrow ArrowDown = ArrowUp"

fun flip_colour :: "colour \<Rightarrow> colour" where
  "flip_colour Dim = Dim"
| "flip_colour Green = Red"
| "flip_colour Red = Green"

definition flip_cell :: "delta_cell \<Rightarrow> delta_cell" where
  "flip_cell d = \<lparr>colour = flip_colour (colour d), arrow = negate_arrow (arrow d), amount = amount d\<rparr>"

definition swap_row :: "comparison_row \<Rightarrow> comparison_row" where
  "swap_row r = (case r of (label, prevText, currText, d) \<Rightarrow> (label, currText, prevText, flip_cell d))"

text \<open>Two reports that share every compared metric.\<close>

definition report_a :: snapshot where
  "report_a = \<lparr>memory = Some [''usedMemory'' \<mapsto> 2048, ''fragmentationRatio'' \<mapsto> 3 / 2],
     performance = Some [''hitRate'' \<mapsto> 95, ''opsPerSecond'' \<mapsto> 10],
     connections = Some [''connectedClients'' \<mapsto> 7],
     summary = Some \<lparr>summary_warnings = 1, summary_critical = 0\<rparr>\<rparr>"

definition report_b :: snapshot where
  "report_b = \<lparr>memory = Some [''usedMemory'' \<mapsto> 1024, ''fragmentationRatio'' \<mapsto> 3 / 2],
     performance = Some [''hitRate'' \<mapsto> 80, ''opsPerSecond'' \<mapsto> 10],
     connections = None,
     summary = Some \<lparr>summary_warnings = 0, summary_critical = 2\<rparr>\<rparr>"

section \<open>The Redis client\<close>

text \<open>
  What the server answers to each command of the analyzer. An \<^verbatim>\<open>INFO\<close> section is given
  by the fields the code reads from it, each after the default (\<^verbatim>\<open>|| "0"\<close>,
  \<^verbatim>\<open>|| "unknown"\<close>) and \<^verbatim>\<open>parseInt\<close> of the code; \<open>mem_fragmentation_ratio\<close> is the decimal
  number the server sent, before \<^verbatim>\<open>parseFloat\<close> rounds it to a double. A field that does
  not parse (\<^verbatim>\<open>NaN\<close>) is outside the model. \<open>Inl\<close> is a command that fails.
\<close>

record server_info =
  redis_version :: string
  uptime_in_seconds :: int

record memory_info =
  used_memory :: int
  used_memory_human :: string
  used_memory_peak :: int
  used_memory_peak_human :: string
  maxmemory :: int
  maxmemory_policy :: string
  mem_fragmentation_ratio :: rat
  evicted_keys :: int
  used_memory_overhead :: int
  used_memory_dataset :: int
  used_memory_lua :: int

record stats_info =
  instantaneous_ops_per_sec :: int
  total_commands_processed :: int
  keyspace_hits :: int
  keyspace_misses :: int
  rejected_connections :: int
  total_net_input_bytes :: int
  total_net_output_bytes :: int

text \<open>An entry of \<^verbatim>\<open>SLOWLOG GET\<close>: id, time stamp, duration and command.\<close>

type_synonym slowlog_entry = "int \<times> int \<times> int \<times> string list"

record clients_info =
  connected_clients :: int
  blocked_clients :: int

text \<open>A line of \<^verbatim>\<open>CLIENT LIST\<close> after \<^verbatim>\<open>parseClientLine\<close>: the three fields the check reads.\<close>

record client_line =
  idle :: int
  omem :: int
  db :: string

text \<open>
  A \<^verbatim>\<open>slaveN\<close> entry of the replication section, split at its commas; a part that is
  absent is \<^verbatim>\<open>undefined\<close> (\<open>None\<close>).
\<close>

record slave_parts =
  slave_ip :: "string option"
  slave_port :: "string option"
  slave_state :: "string option"
  slave_offset :: "int option"
  slave_lag :: "int option"

record replication_info =
  role :: string
  connected_slaves :: int
  slaves :: "nat \<Rightarrow> slave_parts option"
  master_link_status :: string
  master_sync_in_progress :: string

record persistence_info =
  rdb_last_save_time :: int
  rdb_changes_since_last_save :: int
  rdb_last_bgsave_status :: string
  aof_enabled :: bool
  aof_last_write_status :: string
  loading :: bool

text \<open>
  The four replies of a pipeline for one key, \<^verbatim>\<open>results[4 * keyIndex + j]?.[1]\<close> for
  \<open>j = 0..3\<close>: \<open>None\<close> is \<^verbatim>\<open>undefined\<close>, the value of an entry that is missing or whose
  command failed, and for \<^verbatim>\<open>MEMORY USAGE\<close> and \<^verbatim>\<open>OBJECT ENCODING\<close> also the nil reply for a
  key that no longer exists. \<^verbatim>\<open>TYPE\<close> and \<^verbatim>\<open>OBJECT ENCODING\<close> answer with a name,
  \<^verbatim>\<open>MEMORY USAGE\<close> and \<^verbatim>\<open>TTL\<close> with an integer.
\<close>

record key_reply =
  type_reply :: "string option"
  memory_reply :: "int option"
  ttl_reply :: "int option"
  encoding_reply :: "string option"

text \<open>
  The client. \<open>info_keyspace\<close> lists the lines of the keyspace section as name, \<^verbatim>\<open>keys=\<close>
  and \<^verbatim>\<open>expires=\<close>. A \<^verbatim>\<open>SCAN\<close> depends on how many scans came before it and on the
  cursor, a pipeline on how many pipelines came before it and on its keys; \<open>now\<close> is
  \<^verbatim>\<open>Math.floor(Date.now() / 1000)\<close> and \<open>quit\<close> closes the connection.
\<close>

record redis =
  info_server :: "error + server_info"
  info_memory :: "error + memory_info"
  info_stats :: "error + stats_info"
  slowlog_get :: "error + slowlog_entry list"
  slowlog_len :: "error + int"
  info_clients :: "error + clients_info"
  config_get_maxclients :: "error + int option"
  client_list :: "error + client_line list"
  info_replication :: "error + replication_info"
  info_persistence :: "error + persistence_info"
  now :: int
  info_keyspace :: "error + (string \<times> int \<times> int) list"
  scan :: "nat \<Rightarrow> string \<Rightarrow> error + (string \<times> string list)"
  pipeline_exec :: "nat \<Rightarrow> string list \<Rightarrow> error + key_reply list"
  quit :: "error + unit"

text \<open>
  The state every check keeps while it runs: \<^verbatim>\<open>status\<close> and the array \<^verbatim>\<open>findings\<close>.
  \<open>raise_warning\<close> is \<^verbatim>\<open>if (status !== "critical") status = "warning"\<close>, and \<open>failed\<close> is
  the \<^verbatim>\<open>catch\<close> block the five checks share: one more finding, status critical and empty
  metrics.
\<close>

type_synonym check_state = "status \<times> string list"

definition raise_warning :: "status \<Rightarrow> status" where
  "raise_warning st = (if st \<noteq> Critical then Warning else st)"

definition failed :: "string \<Rightarrow> string \<Rightarrow> string list \<Rightarrow> error \<Rightarrow> 'm check_section" where
  "failed t what findings_so_far message =
     \<lparr>title = t, status = Critical, metrics = None,
      findings = findings_so_far @ [what @ '' check failed: '' @ message]\<rparr>"

section \<open>\<^verbatim>\<open>checks/performanceCheck.js\<close>\<close>

record performance_metrics =
  opsPerSecond :: int
  totalCommands :: int
  keyspaceHits :: int
  keyspaceMisses :: int
  hitRate :: rat
  rejectedConnections :: int
  totalNetInput :: int
  totalNetOutput :: int
  uptimeSeconds :: int
  redisVersion :: string
  slowLogEntries :: "slowlog_entry list"
  slowLogLength :: int

text \<open>
  \<^verbatim>\<open>Promise.all\<close> of the two \<^verbatim>\<open>INFO\<close> commands rejects when one of them does; when both
  do, the model reports the failure of the first.
\<close>

definition runPerformanceCheck :: "redis \<Rightarrow> performance_metrics check_section" where
  "runPerformanceCheck r =
     (let title = ''PERFORMANCE ANALYSIS''; findings = []; status = Ok in
      case info_stats r of
        Inl e \<Rightarrow> failed title ''Performance'' findings e
      | Inr stats \<Rightarrow>
      case info_server r of
        Inl e \<Rightarrow> failed title ''Performance'' findings e
      | Inr server \<Rightarrow>
        let opsPerSecond = instantaneous_ops_per_sec stats;
            totalCommands = total_commands_processed stats;
            keyspaceHits = keyspace_hits stats;
            keyspaceMisses = keyspace_misses stats;
            rejectedConnections = rejected_connections stats;
            totalNetInput = total_net_input_bytes stats;
            totalNetOutput = total_net_output_bytes stats;
            uptimeSeconds = uptime_in_seconds server;
            redisVersion = redis_version server;
            totalKeyspaceOps = keyspaceHits + keyspaceMisses;
            hitRate = (if totalKeyspaceOps > 0
                       then fmul (fdiv (of_int keyspaceHits) (of_int totalKeyspaceOps)) 100 else 0);
            (status, findings) =
              (if totalKeyspaceOps > 100 then
                 if hitRate < of_int HIT_RATE_CRITICAL_PERCENT then
                   (Critical, findings @ [''Hit rate '' @ formatPercent hitRate
                      @ '' is critically low (< '' @ String HIT_RATE_CRITICAL_PERCENT
                      @ ''%) - review cache strategy''])
                 else if hitRate < of_int HIT_RATE_WARNING_PERCENT then
                   (Warning, findings @ [''Hit rate '' @ formatPercent hitRate
                      @ '' is below optimal (< '' @ String HIT_RATE_WARNING_PERCENT
                      @ ''%) - consider reviewing cache patterns''])
                 else (status, findings)
               else (status, findings));
            (status, findings) =
              (if rejectedConnections > 0 then
                 (raise_warning status, findings @ [formatNumber rejectedConnections
                    @ '' connections rejected - maxclients may be too low''])
               else (status, findings));
            (slowLogEntries, slowLogLength, status, findings) =
              (case (slowlog_get r, slowlog_len r) of
                 (Inr slowLog, Inr slowLenResult) \<Rightarrow>
                   if slowLenResult > 100 then
                     (slowLog, slowLenResult, raise_warning status,
                      findings @ [formatNumber slowLenResult
                        @ '' total slow log entries - indicates systemic slow commands''])
                   else (slowLog, slowLenResult, status, findings)
               | _ \<Rightarrow> ([], 0, status, findings
                    @ [''SLOWLOG command unavailable (may be restricted on managed Redis)'']));
            metrics = \<lparr>opsPerSecond = opsPerSecond, totalCommands = totalCommands,
              keyspaceHits = keyspaceHits, keyspaceMisses = keyspaceMisses, hitRate = hitRate,
              rejectedConnections = rejectedConnections, totalNetInput = totalNetInput,
              totalNetOutput = totalNetOutput, uptimeSeconds = uptimeSeconds,
              redisVersion = redisVersion, slowLogEntries = slowLogEntries,
              slowLogLength = slowLogLength\<rparr>
        in \<lparr>title = title, status = status, metrics = Some metrics, findings = findings\<rparr>)"

text \<open>The statistics of a server with the same lookups, all of them hits.\<close>

definition all_hits :: "stats_info \<Rightarrow> stats_info" where
  "all_hits stats =
     stats\<lparr>keyspace_hits := keyspace_hits stats + keyspace_misses stats, keyspace_misses := 0\<rparr>"

section \<open>\<^verbatim>\<open>checks/keyPatternCheck.js\<close>\<close>

subsection \<open>Objects used as dictionaries\<close>

text \<open>
  \<^verbatim>\<open>typeDistribution\<close>, \<^verbatim>\<open>encodingDistribution\<close> and \<^verbatim>\<open>prefixGroups\<close> are plain objects
  indexed by a name. The model lists their own properties in the order of creation. A
  plain object also inherits the members of \<^verbatim>\<open>Object.prototype\<close>; all of them are truthy, so
  for such a name the test \<^verbatim>\<open>!obj[name]\<close> of the code fails, no own property is created and
  the two updates land on the inherited member.
\<close>

type_synonym 'v js_object = "(string \<times> 'v) list"

definition object_prototype_names :: "string list" where
  "object_prototype_names =
     [''constructor'', ''__defineGetter__'', ''__defineSetter__'', ''hasOwnProperty'',
      ''__lookupGetter__'', ''__lookupSetter__'', ''isPrototypeOf'', ''propertyIsEnumerable'',
      ''toString'', ''valueOf'', ''__proto__'', ''toLocaleString'']"

record group_total =
  count :: nat
  totalBytes :: int

text \<open>
  \<^verbatim>\<open>if (!obj[name]) obj[name] = { count: 0, totalBytes: 0 }; obj[name].count++;
  obj[name].totalBytes += memoryBytes\<close>
\<close>

definition add_to_group :: "group_total js_object \<Rightarrow> string \<Rightarrow> int \<Rightarrow> group_total js_object" where
  "add_to_group obj name memoryBytes =
     (if name \<in> set object_prototype_names then obj
      else case map_of obj name of
        None \<Rightarrow> obj @ [(name, \<lparr>count = 1, totalBytes = memoryBytes\<rparr>)]
      | Some g \<Rightarrow>
          map (\<lambda>(k, v). if k = name
                 then (k, \<lparr>count = count g + 1, totalBytes = totalBytes g + memoryBytes\<rparr>)
                 else (k, v)) obj)"

text \<open>
  \<^verbatim>\<open>obj[name] = (obj[name] || 0) + 1\<close>, for the names of encodings; an encoding called
  like a member of \<^verbatim>\<open>Object.prototype\<close> is outside the model.
\<close>

definition add_one :: "nat js_object \<Rightarrow> string \<Rightarrow> nat js_object" where
  "add_one obj name =
     (case map_of obj name of
        None \<Rightarrow> obj @ [(name, 1)]
      | Some n \<Rightarrow> map (\<lambda>(k, v). if k = name then (k, n + 1) else (k, v)) obj)"

text \<open>
  \<^verbatim>\<open>Object.entries\<close>: the properties whose name is an array index (a canonical decimal
  below \<open>2^32 - 1\<close>) come first, in ascending order, then the others in order of creation.
\<close>

definition digits_value :: "string \<Rightarrow> int" where
  "digits_value s = foldl (\<lambda>acc c. acc * 10 + (of_char c - 48)) 0 s"

definition is_array_index :: "string \<Rightarrow> bool" where
  "is_array_index s =
     (s \<noteq> [] \<and> list_all (\<lambda>c. c \<in> set ''0123456789'') s
      \<and> (length s = 1 \<or> hd s \<noteq> CHR ''0'') \<and> digits_value s < 4294967295)"

definition object_entries :: "'v js_object \<Rightarrow> (string \<times> 'v) list" where
  "object_entries obj =
     sort_key (\<lambda>(k, v). digits_value k) (filter (\<lambda>(k, v). is_array_index k) obj)
     @ filter (\<lambda>(k, v). \<not> is_array_index k) obj"

subsection \<open>The aggregates\<close>

record ttl_distribution =
  none :: nat
  under1Hour :: nat
  from1HourTo24Hours :: nat
  from1DayTo7Days :: nat
  over7Days :: nat

record key_size =
  key :: string
  type :: string
  bytes :: int

record aggregates =
  typeDistribution :: "group_total js_object"
  encodingDistribution :: "nat js_object"
  timeToLiveDistribution :: ttl_distribution

record sample_state = aggregates +
  keySizes :: "key_size list"
  prefixGroups :: "group_total js_object"

record sample_metrics = aggregates +
  totalKeys :: int
  totalExpiring :: int
  databases :: "(string \<times> int \<times> int) list"
  sampledCount :: nat
  topKeys :: "key_size list"
  noTimeToLivePercent :: rat
  sortedPrefixes :: "(string \<times> group_total) list"

text \<open>
  The \<^verbatim>\<open>metrics\<close> of the section: \<^verbatim>\<open>{ totalKeys: 0, databases }\<close> for an empty keyspace,
  the full object after sampling.
\<close>

datatype key_pattern_metrics =
  Empty_keyspace "(string \<times> int \<times> int) list"
| Sampled sample_metrics

definition initial_state :: sample_state where
  "initial_state =
     \<lparr>typeDistribution = [], encodingDistribution = [],
      timeToLiveDistribution = \<lparr>none = 0, under1Hour = 0, from1HourTo24Hours = 0,
        from1DayTo7Days = 0, over7Days = 0\<rparr>,
      keySizes = [], prefixGroups = []\<rparr>"

subsection \<open>One key\<close>

text \<open>
  The chain of comparisons on the time to live. For \<^verbatim>\<open>undefined\<close> the test
  \<^verbatim>\<open>=== -1\<close> and the three \<^verbatim>\<open><\<close> are all false, which leaves the last branch.
\<close>

definition count_ttl :: "ttl_distribution \<Rightarrow> int option \<Rightarrow> ttl_distribution" where
  "count_ttl d timeToLive =
     (case timeToLive of
        None \<Rightarrow> d\<lparr>over7Days := over7Days d + 1\<rparr>
      | Some t \<Rightarrow>
          if t = - 1 then d\<lparr>none := none d + 1\<rparr>
          else if t < 3600 then d\<lparr>under1Hour := under1Hour d + 1\<rparr>
          else if t < 86400 then d\<lparr>from1HourTo24Hours := from1HourTo24Hours d + 1\<rparr>
          else if t < 604800 then d\<lparr>from1DayTo7Days := from1DayTo7Days d + 1\<rparr>
          else d\<lparr>over7Days := over7Days d + 1\<rparr>)"

definition indexOf :: "string \<Rightarrow> char \<Rightarrow> int" where
  "indexOf s c = (if c \<in> set s then int (length (takeWhile (\<lambda>x. x \<noteq> c) s)) else - 1)"

text \<open>\<^verbatim>\<open>value || "unknown"\<close> for a name, \<^verbatim>\<open>value || 0\<close> for a number.\<close>

definition or_unknown :: "string option \<Rightarrow> string" where
  "or_unknown v = (case v of None \<Rightarrow> ''unknown'' | Some s \<Rightarrow> if s = [] then ''unknown'' else s)"

definition or_zero :: "int option \<Rightarrow> int" where
  "or_zero v = (case v of None \<Rightarrow> 0 | Some n \<Rightarrow> if n = 0 then 0 else n)"

text \<open>
  \<^verbatim>\<open>colonIndex > 0 ? key.slice(0, colonIndex) + ":*" : key\<close>, the name of the group of a
  key.
\<close>

definition key_prefix :: "string \<Rightarrow> string" where
  "key_prefix k =
     (let colonIndex = indexOf k (CHR '':'')
      in if colonIndex > 0 then take (nat colonIndex) k @ '':*'' else k)"

text \<open>The body of the inner loop, for the key \<open>k\<close> and its four replies.\<close>

definition process_key :: "sample_state \<Rightarrow> string \<Rightarrow> key_reply \<Rightarrow> sample_state" where
  "process_key st k reply =
     (let keyType = or_unknown (type_reply reply);
          memoryBytes = or_zero (memory_reply reply);
          timeToLive = ttl_reply reply;
          encoding = or_unknown (encoding_reply reply);
          prefix = key_prefix k
      in st\<lparr>typeDistribution := add_to_group (typeDistribution st) keyType memoryBytes,
            keySizes := keySizes st @ [\<lparr>key = k, type = keyType, bytes = memoryBytes\<rparr>],
            timeToLiveDistribution := count_ttl (timeToLiveDistribution st) timeToLive,
            encodingDistribution := add_one (encodingDistribution st) encoding,
            prefixGroups := add_to_group (prefixGroups st) prefix memoryBytes\<rparr>)"

subsection \<open>The batches\<close>

text \<open>The replies for the key at \<open>keyIndex\<close>; beyond the end of \<^verbatim>\<open>results\<close> all four are missing.\<close>

definition no_reply :: key_reply where
  "no_reply = \<lparr>type_reply = None, memory_reply = None, ttl_reply = None, encoding_reply = None\<rparr>"

definition reply_at :: "key_reply list \<Rightarrow> nat \<Rightarrow> key_reply" where
  "reply_at results keyIndex = (if keyIndex < length results then results ! keyIndex else no_reply)"

definition process_batch :: "sample_state \<Rightarrow> string list \<Rightarrow> key_reply list \<Rightarrow> sample_state" where
  "process_batch st batch results =
     foldl (\<lambda>st (keyIndex, k). process_key st k (reply_at results keyIndex)) st (enumerate 0 batch)"

text \<open>\<^verbatim>\<open>sampledKeys.slice(batchIndex, batchIndex + size)\<close> for \<^verbatim>\<open>batchIndex = 0, size, ...\<close>\<close>

function batches :: "nat \<Rightarrow> 'a list \<Rightarrow> 'a list list" where
  "batches n xs = (if n = 0 \<or> xs = [] then [] else take n xs # batches n (drop n xs))"
  by pat_completeness auto
termination
  by (relation "measure (\<lambda>(n, xs). length xs)") auto

declare batches.simps [simp del]

text \<open>
  The loop over the batches, the \<open>n\<close>-th pipeline first. A pipeline that fails ends the loop
  with its error. The second component lists the batches sent.
\<close>

fun run_batches ::
  "redis \<Rightarrow> nat \<Rightarrow> string list list \<Rightarrow> sample_state \<Rightarrow> (error + sample_state) \<times> string list list" where
  "run_batches r n [] st = (Inr st, [])"
| "run_batches r n (batch # rest) st =
     (case pipeline_exec r n batch of
        Inl e \<Rightarrow> (Inl e, [batch])
      | Inr results \<Rightarrow>
          (case run_batches r (Suc n) rest (process_batch st batch results) of
             (outcome, sent) \<Rightarrow> (outcome, batch # sent)))"

subsection \<open>The scan\<close>

text \<open>
  The \<^verbatim>\<open>do ... while\<close> loop. \<open>cursors\<close> holds the cursors of the scans already made. Nothing
  bounds the number of rounds: against a server that never returns the cursor \<^verbatim>\<open>"0"\<close> and
  never enough keys the loop does not end, and the value is \<open>None\<close>.
\<close>

partial_function (option) scan_loop ::
  "redis \<Rightarrow> int \<Rightarrow> string list \<Rightarrow> string \<Rightarrow> string list \<Rightarrow> ((error + string list) \<times> string list) option" where
  "scan_loop r maxSampleKeys cursors cursor sampledKeys =
     (case scan r (length cursors) cursor of
        Inl e \<Rightarrow> Some (Inl e, cursors @ [cursor])
      | Inr (nextCursor, keys) \<Rightarrow>
          if nextCursor \<noteq> ''0'' \<and> int (length (sampledKeys @ keys)) < maxSampleKeys
          then scan_loop r maxSampleKeys (cursors @ [cursor]) nextCursor (sampledKeys @ keys)
          else Some (Inr (sampledKeys @ keys), cursors @ [cursor]))"

declare scan_loop.simps [code]


subsection \<open>\<^verbatim>\<open>runKeyPatternCheck\<close>\<close>

datatype command = INFO string | SCAN string | PIPELINE "string list"

text \<open>
  \<^verbatim>\<open>if (sampledKeys.length > maxSampleKeys) sampledKeys.length = maxSampleKeys\<close>. Setting
  the length of an array to a negative number throws a \<^verbatim>\<open>RangeError\<close>.
\<close>

definition trim_sample :: "int \<Rightarrow> string list \<Rightarrow> error + string list" where
  "trim_sample maxSampleKeys sampledKeys =
     (if int (length sampledKeys) > maxSampleKeys
      then if maxSampleKeys < 0 then Inl ''Invalid array length''
           else Inr (take (nat maxSampleKeys) sampledKeys)
      else Inr sampledKeys)"

text \<open>
  What follows the scan, from the keys it returned: the trimming, the batches, the sorting
  and the no-TTL rule. The second component lists the batches sent.
\<close>

definition analyse_sample ::
  "redis \<Rightarrow> int \<Rightarrow> (string \<times> int \<times> int) list \<Rightarrow> int \<Rightarrow> int \<Rightarrow> string list
     \<Rightarrow> key_pattern_metrics check_section \<times> string list list" where
  "analyse_sample r maxSampleKeys dbs nkeys nexpiring scanned =
     (let title = ''KEY PATTERN ANALYSIS''; findings = []; status = Ok in
      case trim_sample maxSampleKeys scanned of
        Inl e \<Rightarrow> (failed title ''Key pattern'' findings e, [])
      | Inr sampledKeys \<Rightarrow>
      case run_batches r 0 (batches PIPELINE_BATCH_SIZE sampledKeys) initial_state of
        (Inl e, sent) \<Rightarrow> (failed title ''Key pattern'' findings e, sent)
      | (Inr st, sent) \<Rightarrow>
        let sorted = sort_key (\<lambda>e. - bytes e) (keySizes st);
            topKeys = take TOP_KEYS_COUNT sorted;
            noTimeToLivePercent =
              (if length sampledKeys > 0
               then fmul (fdiv (of_nat (none (timeToLiveDistribution st)))
                          (of_nat (length sampledKeys))) 100
               else 0);
            (status, findings) =
              (if noTimeToLivePercent \<ge> of_int NO_TTL_WARNING_PERCENT
               then (Warning, findings @ [formatPercent noTimeToLivePercent
                       @ '' of sampled keys have no TTL - potential memory growth risk''])
               else (status, findings));
            sortedPrefixes =
              take 15 (sort_key (\<lambda>(p, g). - totalBytes g) (object_entries (prefixGroups st)));
            metrics = \<lparr>typeDistribution = typeDistribution st,
              encodingDistribution = encodingDistribution st,
              timeToLiveDistribution = timeToLiveDistribution st,
              totalKeys = nkeys, totalExpiring = nexpiring, databases = dbs,
              sampledCount = length sampledKeys, topKeys = topKeys,
              noTimeToLivePercent = noTimeToLivePercent, sortedPrefixes = sortedPrefixes\<rparr>
        in (\<lparr>title = title, status = status, metrics = Some (Sampled metrics), findings = findings\<rparr>,
            sent))"

text \<open>
  The check and the commands it has sent, in order. \<open>scanCount\<close> is \<^verbatim>\<open>options.scanCount\<close>,
  \<open>None\<close> when it is \<^verbatim>\<open>undefined\<close>, and \<open>scanCount_or_default\<close> is
  \<^verbatim>\<open>options.scanCount || DEFAULT_SCAN_COUNT\<close>.
\<close>

definition scanCount_or_default :: "int option \<Rightarrow> int" where
  "scanCount_or_default scanCount =
     (case scanCount of
        None \<Rightarrow> DEFAULT_SCAN_COUNT
      | Some n \<Rightarrow> if n = 0 then DEFAULT_SCAN_COUNT else n)"

definition runKeyPatternCheck ::
  "redis \<Rightarrow> int option \<Rightarrow> (key_pattern_metrics check_section \<times> command list) option" where
  "runKeyPatternCheck r scanCount =
     (let title = ''KEY PATTERN ANALYSIS''; findings = [];
          maxSampleKeys = scanCount_or_default scanCount
      in case info_keyspace r of
        Inl e \<Rightarrow> Some (failed title ''Key pattern'' findings e, [INFO ''keyspace''])
      | Inr keyspaceInfo \<Rightarrow>
        let databases = filter (\<lambda>(name, keysCount, expires). take 2 name = ''db'') keyspaceInfo;
            totalKeys = sum_list (map (\<lambda>(name, keysCount, expires). keysCount) databases);
            totalExpiring = sum_list (map (\<lambda>(name, keysCount, expires). expires) databases)
        in if totalKeys = 0 then
             Some (\<lparr>title = title, status = Ok, metrics = Some (Empty_keyspace databases),
                    findings = [''No keys found in this Redis instance'']\<rparr>,
                   [INFO ''keyspace''])
           else
             case scan_loop r maxSampleKeys [] ''0'' [] of
               None \<Rightarrow> None
             | Some (Inl e, cursors) \<Rightarrow>
                 Some (failed title ''Key pattern'' findings e,
                       INFO ''keyspace'' # map SCAN cursors)
             | Some (Inr scanned, cursors) \<Rightarrow>
                 (case analyse_sample r maxSampleKeys databases totalKeys totalExpiring scanned of
                    (result, sent) \<Rightarrow>
                      Some (result, INFO ''keyspace'' # map SCAN cursors @ map PIPELINE sent)))"

subsection \<open>Readings of the result\<close>

text \<open>The sum of the five TTL buckets, and the metrics of a result that has sampled.\<close>

definition ttl_total :: "ttl_distribution \<Rightarrow> nat" where
  "ttl_total d = none d + under1Hour d + from1HourTo24Hours d + from1DayTo7Days d + over7Days d"

definition sampled_metrics ::
  "(key_pattern_metrics check_section \<times> command list) option \<Rightarrow> sample_metrics option" where
  "sampled_metrics outcome =
     (case outcome of
        Some (result, sent) \<Rightarrow>
          (case metrics result of Some (Sampled m) \<Rightarrow> Some m | _ \<Rightarrow> None)
      | None \<Rightarrow> None)"

text \<open>
  How often a name has been counted in a distribution and with how many bytes, and the sizes
  of the top keys of a result, in their order.
\<close>

definition group_count :: "group_total js_object \<Rightarrow> string \<Rightarrow> nat" where
  "group_count obj name = (case map_of obj name of None \<Rightarrow> 0 | Some g \<Rightarrow> count g)"

definition group_bytes :: "group_total js_object \<Rightarrow> string \<Rightarrow> int" where
  "group_bytes obj name = (case map_of obj name of None \<Rightarrow> 0 | Some g \<Rightarrow> totalBytes g)"

definition name_count :: "nat js_object \<Rightarrow> string \<Rightarrow> nat" where
  "name_count obj name = (case map_of obj name of None \<Rightarrow> 0 | Some n \<Rightarrow> n)"

definition top_key_bytes ::
  "(key_pattern_metrics check_section \<times> command list) option \<Rightarrow> int list" where
  "top_key_bytes outcome =
     (case sampled_metrics outcome of Some m \<Rightarrow> map bytes (topKeys m) | None \<Rightarrow> [])"

section \<open>\<^verbatim>\<open>checks/memoryCheck.js\<close>\<close>

record memory_metrics =
  usedMemory :: int
  usedMemoryHuman :: string
  peakMemory :: int
  peakMemoryHuman :: string
  maxMemory :: int
  maxMemoryPolicy :: string
  fragmentationRatio :: rat
  evictedKeys :: int
  usedMemoryOverhead :: int
  usedMemoryDataset :: int
  luaMemory :: int
  memoryUtilization :: rat

text \<open>
  In the two findings on fragmentation the thresholds are printed by a template:
  \<^verbatim>\<open>`${2.0}`\<close> is \<^verbatim>\<open>2\<close> and \<^verbatim>\<open>`${1.5}`\<close> is \<^verbatim>\<open>1.5\<close>. \<^verbatim>\<open>parseFloat\<close> of the fragmentation
  ratio is the double nearest to the decimal of the server.
\<close>

definition runMemoryCheck :: "redis \<Rightarrow> memory_metrics check_section" where
  "runMemoryCheck r =
     (let title = ''MEMORY ANALYSIS''; findings = []; status = Ok in
      case info_memory r of
        Inl e \<Rightarrow> failed title ''Memory'' findings e
      | Inr info \<Rightarrow>
        let usedMemory = used_memory info;
            maxMemory = maxmemory info;
            fragmentationRatio = double (mem_fragmentation_ratio info);
            evictedKeys = evicted_keys info;
            memoryUtilization =
              (if maxMemory > 0 then fmul (fdiv (of_int usedMemory) (of_int maxMemory)) 100 else 0);
            (status, findings) =
              (if maxMemory > 0 then
                 if memoryUtilization \<ge> of_int MEMORY_USAGE_CRITICAL_PERCENT then
                   (Critical, findings @ [''Memory usage at '' @ formatPercent memoryUtilization
                      @ '' of maxmemory - critically high''])
                 else if memoryUtilization \<ge> of_int MEMORY_USAGE_WARNING_PERCENT then
                   (Warning, findings @ [''Memory usage at '' @ formatPercent memoryUtilization
                      @ '' of maxmemory - approaching limit''])
                 else (status, findings)
               else
                 (Warning, findings @ [''maxmemory is not set (unlimited) - ''
                    @ ''consider setting a limit for production'']));
            (status, findings) =
              (if fragmentationRatio \<ge> FRAGMENTATION_CRITICAL then
                 (Critical, findings @ [''Fragmentation ratio '' @ toFixed fragmentationRatio 2
                    @ '' is critically high (>= 2)''])
               else if fragmentationRatio \<ge> FRAGMENTATION_WARNING then
                 (raise_warning status, findings @ [''Fragmentation ratio ''
                    @ toFixed fragmentationRatio 2 @ '' is elevated (>= 1.5)''])
               else (status, findings));
            (status, findings) =
              (if evictedKeys > 0 then
                 (raise_warning status, findings @ [formatNumber evictedKeys
                    @ '' keys have been evicted - memory pressure detected''])
               else (status, findings));
            metrics = \<lparr>usedMemory = usedMemory, usedMemoryHuman = used_memory_human info,
              peakMemory = used_memory_peak info, peakMemoryHuman = used_memory_peak_human info,
              maxMemory = maxMemory, maxMemoryPolicy = maxmemory_policy info,
              fragmentationRatio = fragmentationRatio, evictedKeys = evictedKeys,
              usedMemoryOverhead = used_memory_overhead info,
              usedMemoryDataset = used_memory_dataset info, luaMemory = used_memory_lua info,
              memoryUtilization = memoryUtilization\<rparr>
        in \<lparr>title = title, status = status, metrics = Some metrics, findings = findings\<rparr>)"

section \<open>\<^verbatim>\<open>checks/connectionCheck.js\<close>\<close>

text \<open>
  The client utilisation divides by \<^verbatim>\<open>maxclients\<close> without a guard, so here the quotient
  of JavaScript is kept: a division by zero is an infinity or \<^verbatim>\<open>NaN\<close>.
\<close>

datatype number = Finite rat | Infinity | NegInfinity | NaN

definition percent_of :: "int \<Rightarrow> int \<Rightarrow> number" where
  "percent_of a b =
     (if b \<noteq> 0 then Finite (fmul (fdiv (of_int a) (of_int b)) 100)
      else if a > 0 then Infinity else if a < 0 then NegInfinity else NaN)"

fun at_least :: "number \<Rightarrow> rat \<Rightarrow> bool" where
  "at_least (Finite x) y = (x \<ge> y)"
| "at_least Infinity y = True"
| "at_least NegInfinity y = False"
| "at_least NaN y = False"

fun formatPercentNumber :: "number \<Rightarrow> string" where
  "formatPercentNumber (Finite x) = formatPercent x"
| "formatPercentNumber Infinity = ''Infinity%''"
| "formatPercentNumber NegInfinity = ''-Infinity%''"
| "formatPercentNumber NaN = ''NaN%''"

record connection_metrics =
  connectedClients :: int
  blockedClients :: int
  maxClients :: int
  maxClientsSource :: string
  clientUtilization :: number
  longIdleClients :: nat
  largeBufferClients :: nat
  databaseDistribution :: "nat js_object"
  clientListSkipped :: bool

text \<open>The loop over the lines of \<^verbatim>\<open>CLIENT LIST\<close>.\<close>

definition count_client :: "nat \<times> nat \<times> nat js_object \<Rightarrow> client_line \<Rightarrow> nat \<times> nat \<times> nat js_object" where
  "count_client acc client =
     (case acc of (idleCount, bufferCount, distribution) \<Rightarrow>
        ((if idle client > IDLE_CLIENT_THRESHOLD_SECONDS then idleCount + 1 else idleCount),
         (if omem client > 1024 * 1024 then bufferCount + 1 else bufferCount),
         add_one distribution (db client)))"

definition runConnectionCheck :: "redis \<Rightarrow> connection_metrics check_section" where
  "runConnectionCheck r =
     (let title = ''CONNECTION ANALYSIS''; findings = []; status = Ok in
      case info_clients r of
        Inl e \<Rightarrow> failed title ''Connection'' findings e
      | Inr clientsInfo \<Rightarrow>
        let connectedClients = connected_clients clientsInfo;
            blockedClients = blocked_clients clientsInfo;
            (maxClients, maxClientsSource, findings) =
              (case config_get_maxclients r of
                 Inl e \<Rightarrow> (10000, ''default'', findings @ [''CONFIG GET maxclients unavailable ''
                    @ ''(managed Redis restrictions) - using default 10000''])
               | Inr None \<Rightarrow> (10000, ''default'', findings)
               | Inr (Some n) \<Rightarrow> (n, ''config'', findings));
            clientUtilization = percent_of connectedClients maxClients;
            (status, findings) =
              (if at_least clientUtilization (of_int CLIENT_USAGE_WARNING_PERCENT) then
                 (Warning, findings @ [''Client usage at '' @ formatPercentNumber clientUtilization
                    @ '' of maxclients - approaching limit''])
               else (status, findings));
            (status, findings) =
              (if blockedClients > 0 then
                 (raise_warning status, findings @ [formatNumber blockedClients
                    @ '' blocked clients detected''])
               else (status, findings));
            (longIdleClients, largeBufferClients, databaseDistribution, clientListSkipped, findings) =
              (if connectedClients \<le> CLIENT_LIST_MAX_PARSE then
                 case client_list r of
                   Inr clientLines \<Rightarrow>
                     (case foldl count_client (0, 0, []) clientLines of
                        (idleCount, bufferCount, distribution) \<Rightarrow>
                          (idleCount, bufferCount, distribution, False, findings))
                 | Inl e \<Rightarrow> (0, 0, [], False, findings @ [''CLIENT LIST command unavailable''])
               else
                 (0, 0, [], True, findings @ [''CLIENT LIST parsing skipped (''
                    @ formatNumber connectedClients @ '' clients exceeds ''
                    @ formatNumber CLIENT_LIST_MAX_PARSE @ '' threshold)'']));
            findings =
              (if longIdleClients > 0 then
                 findings @ [formatNumber (int longIdleClients) @ '' clients idle for more than ''
                    @ String IDLE_CLIENT_THRESHOLD_SECONDS @ '' seconds'']
               else findings);
            (status, findings) =
              (if largeBufferClients > 0 then
                 (raise_warning status, findings @ [formatNumber (int largeBufferClients)
                    @ '' clients with output buffers exceeding 1 MB''])
               else (status, findings));
            metrics = \<lparr>connectedClients = connectedClients, blockedClients = blockedClients,
              maxClients = maxClients, maxClientsSource = maxClientsSource,
              clientUtilization = clientUtilization, longIdleClients = longIdleClients,
              largeBufferClients = largeBufferClients, databaseDistribution = databaseDistribution,
              clientListSkipped = clientListSkipped\<rparr>
        in \<lparr>title = title, status = status, metrics = Some metrics, findings = findings\<rparr>)"

section \<open>\<^verbatim>\<open>checks/replicationCheck.js\<close>\<close>

record replica =
  ip :: "string option"
  port :: "string option"
  state :: "string option"
  offset :: int
  lag :: int

record replication_metrics =
  replicationRole :: string
  connectedSlaves :: int
  replicas :: "replica list"
  rdbLastSaveTime :: int
  rdbChangesSinceLastSave :: int
  rdbLastSaveStatus :: string
  timeSinceLastSave :: int
  aofEnabled :: bool
  aofLastWriteStatus :: string
  isLoading :: bool

text \<open>A part of a \<^verbatim>\<open>slaveN\<close> entry inside a template: \<^verbatim>\<open>undefined\<close> when it is absent.\<close>

definition or_undefined :: "string option \<Rightarrow> string" where
  "or_undefined v = (case v of None \<Rightarrow> ''undefined'' | Some s \<Rightarrow> s)"

text \<open>
  The body of the loop over \<^verbatim>\<open>index < connectedSlaves\<close>, on the replicas found so far, the
  status and the findings. An index without a \<^verbatim>\<open>slaveN\<close> entry is skipped.
\<close>

definition visit_slave ::
  "replication_info \<Rightarrow> replica list \<times> status \<times> string list \<Rightarrow> nat
     \<Rightarrow> replica list \<times> status \<times> string list" where
  "visit_slave replication acc index =
     (case acc of (found, st, fs) \<Rightarrow>
        case slaves replication index of
          None \<Rightarrow> (found, st, fs)
        | Some parts \<Rightarrow>
            let found = found @ [\<lparr>ip = slave_ip parts, port = slave_port parts,
                  state = slave_state parts,
                  offset = (case slave_offset parts of None \<Rightarrow> 0 | Some n \<Rightarrow> n),
                  lag = (case slave_lag parts of None \<Rightarrow> 0 | Some n \<Rightarrow> n)\<rparr>];
                name = ''Replica '' @ or_undefined (slave_ip parts) @ '':''
                  @ or_undefined (slave_port parts);
                (st, fs) =
                  (case slave_lag parts of
                     Some n \<Rightarrow>
                       if n > 10 then (raise_warning st,
                         fs @ [name @ '' has lag of '' @ String n @ '' seconds''])
                       else (st, fs)
                   | None \<Rightarrow> (st, fs));
                (st, fs) =
                  (if slave_state parts \<noteq> Some ''online'' then
                     (Critical, fs @ [name @ '' is in state: '' @ or_undefined (slave_state parts)])
                   else (st, fs))
            in (found, st, fs))"

text \<open>
  \<^verbatim>\<open>Promise.all\<close> of the two \<^verbatim>\<open>INFO\<close> commands rejects when one of them does; when both
  do, the model reports the failure of the first. The field \<^verbatim>\<open>role\<close> of the metrics is
  \<open>replicationRole\<close> and the field \<^verbatim>\<open>loading\<close> is \<open>isLoading\<close>.
\<close>

definition runReplicationCheck :: "redis \<Rightarrow> replication_metrics check_section" where
  "runReplicationCheck r =
     (let title = ''REPLICATION & PERSISTENCE''; findings = []; status = Ok in
      case info_replication r of
        Inl e \<Rightarrow> failed title ''Replication'' findings e
      | Inr replication \<Rightarrow>
      case info_persistence r of
        Inl e \<Rightarrow> failed title ''Replication'' findings e
      | Inr persistence \<Rightarrow>
        let connectedSlaves = connected_slaves replication;
            (replicas, status, findings) =
              foldl (visit_slave replication) ([], status, findings) [0..<nat connectedSlaves];
            (status, findings) =
              (if role replication = ''slave'' then
                 let (status, findings) =
                       (if master_link_status replication \<noteq> ''up'' then
                          (Critical, findings @ [''Master link status is '' @ [CHR 0x22]
                             @ master_link_status replication @ [CHR 0x22]
                             @ '' - replication may be broken''])
                        else (status, findings))
                 in (if master_sync_in_progress replication = ''1'' then
                       (raise_warning status, findings @ [''Full sync with master is in progress''])
                     else (status, findings))
               else (status, findings));
            rdbLastSaveTime = rdb_last_save_time persistence;
            timeSinceLastSave = (if rdbLastSaveTime > 0 then now r - rdbLastSaveTime else 0);
            (status, findings) =
              (if rdb_last_bgsave_status persistence = ''err'' then
                 (Critical, findings @ [''Last RDB background save failed''])
               else (status, findings));
            (status, findings) =
              (if aof_enabled persistence \<and> aof_last_write_status persistence = ''err'' then
                 (Critical, findings @ [''Last AOF write failed''])
               else (status, findings));
            (status, findings) =
              (if loading persistence then
                 (raise_warning status, findings @ [''Redis is currently loading data into memory''])
               else (status, findings));
            metrics = \<lparr>replicationRole = role replication, connectedSlaves = connectedSlaves,
              replicas = replicas, rdbLastSaveTime = rdbLastSaveTime,
              rdbChangesSinceLastSave = rdb_changes_since_last_save persistence,
              rdbLastSaveStatus = rdb_last_bgsave_status persistence,
              timeSinceLastSave = timeSinceLastSave, aofEnabled = aof_enabled persistence,
              aofLastWriteStatus = aof_last_write_status persistence,
              isLoading = loading persistence\<rparr>
        in \<lparr>title = title, status = status, metrics = Some metrics, findings = findings\<rparr>)"

section \<open>The printed report\<close>

text \<open>
  The report is written to the console. What the model keeps of the printing functions is
  whether they return, because an exception thrown while printing ends the single run. Two
  operations of the printing code can throw. \<^verbatim>\<open>String.prototype.repeat\<close> throws a
  \<^verbatim>\<open>RangeError\<close> for a negative or infinite count, and for a count beyond the longest string
  of the engine (\<open>2^29 - 24\<close> characters in V8); it is called by \<^verbatim>\<open>renderBar\<close> with counts
  computed from the metrics. \<^verbatim>\<open>Date.prototype.toISOString\<close> throws a \<^verbatim>\<open>RangeError\<close> for a
  time beyond 8.64e15 milliseconds; it is called on the time stamps of the slow log. The
  other calls of \<^verbatim>\<open>repeat\<close> have constant or non-negative counts, and \<^verbatim>\<open>printReportHeader\<close>,
  \<^verbatim>\<open>printTopSummary\<close>, \<^verbatim>\<open>printRecommendations\<close>, \<^verbatim>\<open>printTable\<close> and
  \<^verbatim>\<open>printReplicationCheck\<close> contain no operation that throws; \<^verbatim>\<open>printComparison\<close> does not
  throw on a report that the analyzer has written.
\<close>

subsection \<open>\<^verbatim>\<open>renderBar\<close> of \<^verbatim>\<open>utils/format.js\<close>\<close>

text \<open>
  \<^verbatim>\<open>s.repeat(count)\<close> for a string \<open>s\<close> of one character (one UTF-16 code unit) and an
  integer count.
\<close>

definition repeat :: "string \<Rightarrow> int \<Rightarrow> error + string" where
  "repeat s n =
     (if n < 0 then Inl (''Invalid count value: '' @ String n)
      else if n > 2 ^ 29 - 24 then Inl ''Invalid string length''
      else Inr (concat (replicate (nat n) s)))"

text \<open>
  The bar without its colours: \<^verbatim>\<open>filled\<close> full blocks (U+2588), then \<^verbatim>\<open>empty\<close> light
  shades (U+2591). The ratio is not clamped to the range from 0 to 1.
\<close>

definition renderBar :: "rat \<Rightarrow> int \<Rightarrow> error + string" where
  "renderBar ratio width =
     (let filled = Math_round (fmul ratio (of_int width));
          empty = width - filled
      in case repeat [CHR 0xE2, CHR 0x96, CHR 0x88] filled of
           Inl e \<Rightarrow> Inl e
         | Inr filledBar \<Rightarrow>
             (case repeat [CHR 0xE2, CHR 0x96, CHR 0x91] empty of
                Inl e \<Rightarrow> Inl e
              | Inr emptyBar \<Rightarrow> Inr (filledBar @ emptyBar)))"

text \<open>
  \<^verbatim>\<open>renderBar(value / 100, width, status)\<close> for a value that may be infinite or \<^verbatim>\<open>NaN\<close>:
  \<^verbatim>\<open>repeat\<close> takes \<^verbatim>\<open>NaN\<close> for the count 0.
\<close>

fun renderPercentBar :: "number \<Rightarrow> int \<Rightarrow> error + string" where
  "renderPercentBar (Finite x) width = renderBar (fdiv x 100) width"
| "renderPercentBar Infinity width = Inl ''Invalid count value: Infinity''"
| "renderPercentBar NegInfinity width = Inl ''Invalid count value: -Infinity''"
| "renderPercentBar NaN width = Inr []"

text \<open>The first exception among the steps of a printing function, taken in order.\<close>

fun first_error :: "(error + 'a) list \<Rightarrow> error + unit" where
  "first_error [] = Inr ()"
| "first_error (Inl e # steps) = Inl e"
| "first_error (Inr x # steps) = first_error steps"

subsection \<open>The five detail sections\<close>

text \<open>
  \<^verbatim>\<open>printMemoryCheck\<close>: a section without metrics prints its finding; otherwise the bar of the
  memory utilisation is drawn when \<^verbatim>\<open>maxmemory\<close> is set.
\<close>

definition printMemoryCheck :: "memory_metrics check_section \<Rightarrow> error + unit" where
  "printMemoryCheck result =
     (case metrics result of
        None \<Rightarrow> Inr ()
      | Some m \<Rightarrow>
          first_error (if maxMemory m > 0 then [renderBar (fdiv (memoryUtilization m) 100) 20]
                       else []))"

text \<open>
  \<^verbatim>\<open>printPerformanceCheck\<close>: the bar of the hit rate when there were lookups, then a row of
  the table for every entry of the slow log, with \<^verbatim>\<open>new Date(timestamp * 1000).toISOString()\<close>.
\<close>

definition toISOString :: "int \<Rightarrow> error + unit" where
  "toISOString milliseconds =
     (if \<bar>milliseconds\<bar> > 8640000000000000 then Inl ''Invalid time value'' else Inr ())"

definition printPerformanceCheck :: "performance_metrics check_section \<Rightarrow> error + unit" where
  "printPerformanceCheck result =
     (case metrics result of
        None \<Rightarrow> Inr ()
      | Some m \<Rightarrow>
          first_error
            [first_error (if keyspaceHits m + keyspaceMisses m > 0
                          then [renderBar (fdiv (hitRate m) 100) 20] else []),
             first_error (map (\<lambda>(ident, timestamp, duration, command). toISOString (timestamp * 1000))
                            (sort_key (\<lambda>(ident, timestamp, duration, command). - duration)
                               (slowLogEntries m)))])"

text \<open>
  \<^verbatim>\<open>printConnectionCheck\<close>: the bar of the client utilisation, then one bar for every
  database of the client list, relative to the largest count.
\<close>

definition printConnectionCheck :: "connection_metrics check_section \<Rightarrow> error + unit" where
  "printConnectionCheck result =
     (case metrics result of
        None \<Rightarrow> Inr ()
      | Some m \<Rightarrow>
          first_error
            [first_error [renderPercentBar (clientUtilization m) 20],
             first_error
               (if clientListSkipped m then []
                else let databaseEntries = object_entries (databaseDistribution m)
                     in if length databaseEntries > 0 then
                          let sorted = sort_key (\<lambda>(database, n). - int n) databaseEntries;
                              maxCount = snd (hd sorted)
                          in map (\<lambda>(database, n). renderBar (fdiv (of_nat n) (of_nat maxCount)) 15)
                               sorted
                        else [])])"

text \<open>
  \<^verbatim>\<open>printKeyPatternCheck\<close>: for every database the bar of the keys with an expiry; after a
  sampling also a bar for every type, relative to the most frequent one, and the five bars of
  the TTL buckets, relative to the fullest one.
\<close>

definition database_bars :: "(string \<times> int \<times> int) list \<Rightarrow> (error + string) list" where
  "database_bars dbs =
     map (\<lambda>(database, keysCount, expires).
            renderBar (if keysCount > 0 then fdiv (of_int expires) (of_int keysCount) else 0) 10)
       dbs"

definition type_bars :: "group_total js_object \<Rightarrow> (error + string) list" where
  "type_bars types =
     (let typeEntries = sort_key (\<lambda>(name, g). - int (count g)) (object_entries types);
          maxTypeCount = (case typeEntries of
                            [] \<Rightarrow> 1
                          | (name, g) # rest \<Rightarrow> if count g = 0 then 1 else count g)
      in map (\<lambda>(name, g). renderBar (fdiv (of_nat (count g)) (of_nat maxTypeCount)) 15)
           typeEntries)"

definition ttl_bars :: "ttl_distribution \<Rightarrow> (error + string) list" where
  "ttl_bars distribution =
     (let counts = [none distribution, under1Hour distribution,
                    from1HourTo24Hours distribution, from1DayTo7Days distribution,
                    over7Days distribution];
          largest = Max (set counts);
          maxTimeToLive = (if largest = 0 then 1 else largest)
      in map (\<lambda>n. renderBar (fdiv (of_nat n) (of_nat maxTimeToLive)) 15) counts)"

definition printKeyPatternCheck :: "key_pattern_metrics check_section \<Rightarrow> error + unit" where
  "printKeyPatternCheck result =
     (case metrics result of
        None \<Rightarrow> Inr ()
      | Some (Empty_keyspace dbs) \<Rightarrow> first_error (database_bars dbs)
      | Some (Sampled m) \<Rightarrow>
          first_error
            (database_bars (databases m) @ type_bars (typeDistribution m)
             @ ttl_bars (timeToLiveDistribution m)))"

section \<open>\<^verbatim>\<open>commands/analyze.js\<close>\<close>

text \<open>
  The options of a single run: \<^verbatim>\<open>OPTIONS.json\<close>, and the two that \<^verbatim>\<open>runAnalysis\<close> reads,
  \<^verbatim>\<open>OPTIONS.noScan\<close> and \<^verbatim>\<open>OPTIONS.scanCount\<close>. \<^verbatim>\<open>OPTIONS.watch\<close> is 0 and there is no
  report to compare with.
\<close>

record options =
  opt_json :: bool
  opt_noScan :: bool
  opt_scanCount :: int

text \<open>
  The object \<^verbatim>\<open>results\<close>; its fields \<^verbatim>\<open>memory\<close>, \<^verbatim>\<open>performance\<close>, \<^verbatim>\<open>connections\<close> and
  \<^verbatim>\<open>replication\<close> carry here the names of the variables they are assigned from, and
  \<^verbatim>\<open>keyPatterns\<close> is present when the sampling was not skipped.
\<close>

record analysis_results =
  memoryResult :: "memory_metrics check_section"
  performanceResult :: "performance_metrics check_section"
  connectionResult :: "connection_metrics check_section"
  replicationResult :: "replication_metrics check_section"
  keyPatterns :: "key_pattern_metrics check_section option"

record analysis =
  results :: analysis_results
  serverInfo :: "string \<times> int"
  warnings :: nat
  criticals :: nat

text \<open>The status of each value of \<^verbatim>\<open>Object.values(results)\<close>, in the order of assignment.\<close>

definition section_statuses :: "analysis_results \<Rightarrow> status list" where
  "section_statuses res =
     [status (memoryResult res), status (performanceResult res), status (connectionResult res),
      status (replicationResult res)]
     @ (case keyPatterns res of None \<Rightarrow> [] | Some section \<Rightarrow> [status section])"

text \<open>The loop that counts: \<^verbatim>\<open>warnings\<close> and \<^verbatim>\<open>criticals\<close> after one more section.\<close>

definition count_status :: "nat \<times> nat \<Rightarrow> status \<Rightarrow> nat \<times> nat" where
  "count_status acc s =
     (case acc of (w, c) \<Rightarrow> ((if s = Warning then w + 1 else w), (if s = Critical then c + 1 else c)))"

text \<open>
  \<^verbatim>\<open>runAnalysis\<close>. The probe \<^verbatim>\<open>INFO server\<close> is outside any \<^verbatim>\<open>try\<close>: its failure is the
  failure of the analysis. The result is \<open>None\<close> when the key sampling does not return.
\<close>

definition runAnalysis :: "redis \<Rightarrow> options \<Rightarrow> (error + analysis) option" where
  "runAnalysis r opts =
     (case info_server r of
        Inl e \<Rightarrow> Some (Inl e)
      | Inr server \<Rightarrow>
          (case (if opt_noScan opts then Some None
                 else map_option (\<lambda>(section, sent). Some section)
                        (runKeyPatternCheck r (Some (opt_scanCount opts)))) of
             None \<Rightarrow> None
           | Some sampling \<Rightarrow>
               let res = \<lparr>memoryResult = runMemoryCheck r,
                     performanceResult = runPerformanceCheck r,
                     connectionResult = runConnectionCheck r,
                     replicationResult = runReplicationCheck r,
                     keyPatterns = sampling\<rparr>;
                   counts = foldl count_status (0, 0) (section_statuses res)
               in Some (Inr \<lparr>results = res,
                              serverInfo = (redis_version server, uptime_in_seconds server),
                              warnings = fst counts, criticals = snd counts\<rparr>)))"

text \<open>\<^verbatim>\<open>analysis.criticals > 0 ? 2 : analysis.warnings > 0 ? 1 : 0\<close>\<close>

definition exitCode :: "analysis \<Rightarrow> nat" where
  "exitCode a = (if criticals a > 0 then 2 else if warnings a > 0 then 1 else 0)"

text \<open>
  The detail sections that the single run prints after the summary, in order:
  \<^verbatim>\<open>printMemoryCheck\<close>, \<^verbatim>\<open>printPerformanceCheck\<close>, \<^verbatim>\<open>printConnectionCheck\<close>,
  \<^verbatim>\<open>printKeyPatternCheck\<close> when the keys were sampled, and \<^verbatim>\<open>printReplicationCheck\<close>, which
  does not throw.
\<close>

definition print_details :: "analysis_results \<Rightarrow> error + unit" where
  "print_details res =
     first_error
       [printMemoryCheck (memoryResult res), printPerformanceCheck (performanceResult res),
        printConnectionCheck (connectionResult res),
        (case keyPatterns res of None \<Rightarrow> Inr () | Some section \<Rightarrow> printKeyPatternCheck section)]"

text \<open>
  The single-run branch of \<^verbatim>\<open>run\<close>: the exit code of the process, \<open>None\<close> when it does
  not exit. With \<^verbatim>\<open>--json\<close> the analysis is printed by \<^verbatim>\<open>JSON.stringify\<close>. Otherwise the
  summary is printed, \<^verbatim>\<open>waitForKeypress\<close> waits for a line on the standard input
  (\<open>keypress\<close> tells whether one arrives), and the detail sections follow. Only then the
  exit code is computed, the connection closed and the process left with that code. An
  error thrown on the way, by \<^verbatim>\<open>runAnalysis\<close>, by the printing or by \<^verbatim>\<open>redis.quit()\<close>, is
  caught: the connection is closed and the error thrown again, to \<^verbatim>\<open>run().catch\<close>, which
  exits with 1.
\<close>

definition single_run :: "redis \<Rightarrow> options \<Rightarrow> bool \<Rightarrow> nat option" where
  "single_run r opts keypress =
     (case runAnalysis r opts of
        None \<Rightarrow> None
      | Some (Inl e) \<Rightarrow> Some 1
      | Some (Inr a) \<Rightarrow>
          if \<not> opt_json opts \<and> \<not> keypress then None
          else
            case (if opt_json opts then Inr () else print_details (results a)) of
              Inl e \<Rightarrow> Some 1
            | Inr u \<Rightarrow> (case quit r of Inl e \<Rightarrow> Some 1 | Inr u \<Rightarrow> Some (exitCode a)))"

section \<open>Example servers\<close>

text \<open>
  A server with nothing to report: three keys that expire within the hour are the whole keyspace, one
  \<^verbatim>\<open>SCAN\<close> returns them and closes the cursor, and every key is a string of 64 bytes.
\<close>

definition quiet_redis :: redis where
  "quiet_redis =
     \<lparr>info_server = Inr \<lparr>redis_version = ''7.2.4'', uptime_in_seconds = 86400\<rparr>,
      info_memory = Inr \<lparr>used_memory = 1048576, used_memory_human = ''1.00M'',
        used_memory_peak = 2097152, used_memory_peak_human = ''2.00M'', maxmemory = 4194304,
        maxmemory_policy = ''noeviction'', mem_fragmentation_ratio = 11 / 10, evicted_keys = 0,
        used_memory_overhead = 524288, used_memory_dataset = 524288, used_memory_lua = 0\<rparr>,
      info_stats = Inr \<lparr>instantaneous_ops_per_sec = 12, total_commands_processed = 5000,
        keyspace_hits = 990, keyspace_misses = 10, rejected_connections = 0,
        total_net_input_bytes = 1000, total_net_output_bytes = 2000\<rparr>,
      slowlog_get = Inr [],
      slowlog_len = Inr 0,
      info_clients = Inr \<lparr>connected_clients = 3, blocked_clients = 0\<rparr>,
      config_get_maxclients = Inr (Some 10000),
      client_list = Inr [\<lparr>idle = 1, omem = 0, db = ''0''\<rparr>],
      info_replication = Inr \<lparr>role = ''master'', connected_slaves = 0, slaves = (\<lambda>i. None),
        master_link_status = ''unknown'', master_sync_in_progress = ''0''\<rparr>,
      info_persistence = Inr \<lparr>rdb_last_save_time = 1700000000, rdb_changes_since_last_save = 0,
        rdb_last_bgsave_status = ''ok'', aof_enabled = False, aof_last_write_status = ''ok'',
        loading = False\<rparr>,
      now = 1700000600,
      info_keyspace = Inr [(''db0'', 3, 3)],
      scan = (\<lambda>n cursor. Inr (''0'', [''user:1'', ''user:2'', ''session:9''])),
      pipeline_exec = (\<lambda>n batch. Inr (map (\<lambda>key. \<lparr>type_reply = Some ''string'',
        memory_reply = Some 64, ttl_reply = Some 3000, encoding_reply = Some ''embstr''\<rparr>) batch)),
      quit = Inr ()\<rparr>"

text \<open>The same server after one hit in a hundred lookups.\<close>

definition cold_cache_stats :: stats_info where
  "cold_cache_stats = \<lparr>instantaneous_ops_per_sec = 12, total_commands_processed = 5000,
     keyspace_hits = 1, keyspace_misses = 99, rejected_connections = 0,
     total_net_input_bytes = 1000, total_net_output_bytes = 2000\<rparr>"

definition cold_cache_redis :: redis where
  "cold_cache_redis = quiet_redis\<lparr>info_stats := Inr cold_cache_stats\<rparr>"

text \<open>
  A server with five keys, three of them without expiry and two pairs of equal size, and a
  server whose pipelines come back empty, so that every entry is missing.
\<close>

definition leaky_reply :: "string \<Rightarrow> key_reply" where
  "leaky_reply k =
     (if k = ''session:9'' then \<lparr>type_reply = Some ''hash'', memory_reply = Some 512,
        ttl_reply = Some (- 1), encoding_reply = Some ''listpack''\<rparr>
      else if k = ''queue'' then \<lparr>type_reply = Some ''list'', memory_reply = Some 2048,
        ttl_reply = Some 90000, encoding_reply = Some ''quicklist''\<rparr>
      else if k = ''cache:a'' then \<lparr>type_reply = Some ''string'', memory_reply = Some 64,
        ttl_reply = Some 120, encoding_reply = Some ''embstr''\<rparr>
      else \<lparr>type_reply = Some ''string'', memory_reply = Some 64,
        ttl_reply = Some (- 1), encoding_reply = Some ''embstr''\<rparr>)"

definition leaky_redis :: redis where
  "leaky_redis = quiet_redis
     \<lparr>info_keyspace := Inr [(''db0'', 5, 2)],
      scan := (\<lambda>n cursor. Inr (''0'', [''user:1'', ''user:2'', ''session:9'', ''cache:a'', ''queue''])),
      pipeline_exec := (\<lambda>n batch. Inr (map leaky_reply batch))\<rparr>"

definition lossy_redis :: redis where
  "lossy_redis = quiet_redis\<lparr>pipeline_exec := (\<lambda>n batch. Inr [])\<rparr>"

definition empty_redis :: redis where
  "empty_redis = quiet_redis\<lparr>info_keyspace := Inr [(''db0'', 0, 0)]\<rparr>"

text \<open>What the key-sampling check reports on the server with five keys, asked for 1000.\<close>

definition leaky_metrics :: sample_metrics where
  "leaky_metrics =
     \<lparr>typeDistribution = [(''string'', \<lparr>count = 3, totalBytes = 192\<rparr>),
        (''hash'', \<lparr>count = 1, totalBytes = 512\<rparr>), (''list'', \<lparr>count = 1, totalBytes = 2048\<rparr>)],
      encodingDistribution = [(''embstr'', 3), (''listpack'', 1), (''quicklist'', 1)],
      timeToLiveDistribution = \<lparr>none = 3, under1Hour = 1, from1HourTo24Hours = 0,
        from1DayTo7Days = 1, over7Days = 0\<rparr>,
      totalKeys = 5, totalExpiring = 2, databases = [(''db0'', 5, 2)], sampledCount = 5,
      topKeys = [\<lparr>key = ''queue'', type = ''list'', bytes = 2048\<rparr>,
        \<lparr>key = ''session:9'', type = ''hash'', bytes = 512\<rparr>,
        \<lparr>key = ''user:1'', type = ''string'', bytes = 64\<rparr>,
        \<lparr>key = ''user:2'', type = ''string'', bytes = 64\<rparr>,
        \<lparr>key = ''cache:a'', type = ''string'', bytes = 64\<rparr>],
      noTimeToLivePercent = 60,
      sortedPrefixes = [(''queue'', \<lparr>count = 1, totalBytes = 2048\<rparr>),
        (''session:*'', \<lparr>count = 1, totalBytes = 512\<rparr>),
        (''user:*'', \<lparr>count = 2, totalBytes = 128\<rparr>),
        (''cache:*'', \<lparr>count = 1, totalBytes = 64\<rparr>)]\<rparr>"

definition leaky_section :: "key_pattern_metrics check_section" where
  "leaky_section =
     \<lparr>title = ''KEY PATTERN ANALYSIS'', status = Warning, metrics = Some (Sampled leaky_metrics),
      findings = [''60.0% of sampled keys have no TTL - potential memory growth risk'']\<rparr>"

definition leaky_commands :: "command list" where
  "leaky_commands =
     [INFO ''keyspace'', SCAN ''0'',
      PIPELINE [''user:1'', ''user:2'', ''session:9'', ''cache:a'', ''queue'']]"

text \<open>
  The options of a run without flags, which prints the report and samples up to 1000 keys,
  of the same run with \<^verbatim>\<open>--no-scan\<close> and of the same run with \<^verbatim>\<open>--json\<close>.
\<close>

definition scan_options :: options where
  "scan_options = \<lparr>opt_json = False, opt_noScan = False, opt_scanCount = 1000\<rparr>"

definition no_scan_options :: options where
  "no_scan_options = \<lparr>opt_json = False, opt_noScan = True, opt_scanCount = 1000\<rparr>"

definition json_options :: options where
  "json_options = \<lparr>opt_json = True, opt_noScan = False, opt_scanCount = 1000\<rparr>"


text \<open>
  A server that holds 150 MB with \<^verbatim>\<open>maxmemory\<close> at 100 MB, as happens under the policy
  \<^verbatim>\<open>noeviction\<close>; everything else is as on the quiet server.
\<close>

definition overcommitted_redis :: redis where
  "overcommitted_redis = quiet_redis
     \<lparr>info_memory := Inr \<lparr>used_memory = 157286400, used_memory_human = ''150.00M'',
        used_memory_peak = 157286400, used_memory_peak_human = ''150.00M'',
        maxmemory = 104857600, maxmemory_policy = ''noeviction'',
        mem_fragmentation_ratio = 11 / 10, evicted_keys = 0, used_memory_overhead = 524288,
        used_memory_dataset = 156762112, used_memory_lua = 0\<rparr>\<rparr>"



section \<open>Properties of the rounding\<close>

lemma bitlen_pow_bounds:
  assumes "0 < (p::int)"
  shows "(2::rat) powi (bitlen p - 1) \<le> of_int p" and "of_int p < (2::rat) powi (bitlen p)"
proof -
  from bitlen_bounds[OF assms] have a: "2 ^ nat (bitlen p - 1) \<le> p" and b: "p < 2 ^ nat (bitlen p)"
    by auto
  have pos: "0 < bitlen p"
    using assms bitlen_eq_zero_iff[of p] bitlen_nonneg[of p] by linarith
  have "(2::rat) powi (bitlen p - 1) = 2 ^ nat (bitlen p - 1)"
    using pos by (simp add: power_int_def)
  also have "\<dots> = of_int (2 ^ nat (bitlen p - 1))" by simp
  also have "\<dots> \<le> of_int p" using a by (simp only: of_int_le_iff)
  finally show "(2::rat) powi (bitlen p - 1) \<le> of_int p" .
  have "of_int p < (of_int (2 ^ nat (bitlen p)) :: rat)" using b by (simp only: of_int_less_iff)
  also have "\<dots> = 2 ^ nat (bitlen p)" by simp
  also have "\<dots> = 2 powi (bitlen p)" using pos by (simp add: power_int_def)
  finally show "of_int p < (2::rat) powi (bitlen p)" .
qed

lemma floor_log2_bounds:
  assumes "0 < x"
  shows "2 powi (floor_log2 x) \<le> x" and "x < 2 powi (floor_log2 x + 1)"
proof -
  obtain p q where pq: "quotient_of x = (p, q)" by (cases "quotient_of x")
  then have q: "0 < q" and x: "x = of_int p / of_int q"
    by (auto simp: quotient_of_denom_pos quotient_of_div)
  from assms x q have p: "0 < p" by (simp add: zero_less_divide_iff)
  define e where "e = bitlen p - bitlen q"
  have fl: "floor_log2 x = (if 2 powi e \<le> x then e else e - 1)"
    by (simp add: floor_log2_def pq e_def Let_def)
  note bp = bitlen_pow_bounds[OF p] and bq = bitlen_pow_bounds[OF q]
  have qpos: "(0::rat) < of_int q" using q by simp
  have lo: "2 powi (e - 1) \<le> x"
  proof -
    have "(2::rat) powi (e - 1) * of_int q \<le> 2 powi (e - 1) * 2 powi (bitlen q)"
      using bq(2) by (intro mult_left_mono) (auto simp: less_imp_le)
    also have "\<dots> = 2 powi (bitlen p - 1)"
      by (simp add: e_def power_int_add[symmetric])
    also have "\<dots> \<le> of_int p" by (rule bp(1))
    finally show ?thesis using qpos by (simp add: x pos_le_divide_eq)
  qed
  have hi: "x < 2 powi (e + 1)"
  proof -
    have "of_int p < (2::rat) powi (bitlen p)" by (rule bp(2))
    also have "\<dots> = 2 powi (e + 1) * 2 powi (bitlen q - 1)"
      by (simp add: e_def power_int_add[symmetric])
    also have "\<dots> \<le> 2 powi (e + 1) * of_int q"
      using bq(1) by (intro mult_left_mono) auto
    finally show ?thesis using qpos by (simp add: x pos_divide_less_eq)
  qed
  show "2 powi (floor_log2 x) \<le> x" using lo by (simp add: fl)
  show "x < 2 powi (floor_log2 x + 1)" using hi by (auto simp: fl not_le)
qed

lemma floor_log2_mono:
  assumes "0 < x" "x \<le> y"
  shows "floor_log2 x \<le> floor_log2 y"
proof (rule ccontr)
  assume "\<not> floor_log2 x \<le> floor_log2 y"
  then have "floor_log2 y + 1 \<le> floor_log2 x" by simp
  then have "(2::rat) powi (floor_log2 y + 1) \<le> 2 powi (floor_log2 x)"
    by (intro power_int_increasing) auto
  also have "\<dots> \<le> x" using assms(1) by (rule floor_log2_bounds)
  also have "\<dots> \<le> y" by fact
  also have "\<dots> < 2 powi (floor_log2 y + 1)" using assms by (intro floor_log2_bounds) simp
  finally show False by simp
qed

lemma round_half_even_bounds:
  "\<lfloor>q\<rfloor> \<le> round_half_even q" "round_half_even q \<le> \<lfloor>q\<rfloor> + 1"
  by (auto simp: round_half_even_def Let_def)

lemma round_half_even_of_int [simp]: "round_half_even (of_int k) = k"
  by (simp add: round_half_even_def)

lemma round_half_even_mono:
  assumes "q \<le> q'"
  shows "round_half_even q \<le> round_half_even q'"
proof (cases "\<lfloor>q\<rfloor> = \<lfloor>q'\<rfloor>")
  case True
  then show ?thesis using assms by (auto simp: round_half_even_def Let_def)
next
  case False
  with assms have "\<lfloor>q\<rfloor> < \<lfloor>q'\<rfloor>" by (simp add: floor_mono order.not_eq_order_implies_strict)
  then have "round_half_even q \<le> \<lfloor>q'\<rfloor>" using round_half_even_bounds(2)[of q] by simp
  then show ?thesis using round_half_even_bounds(1)[of q'] by simp
qed

lemma round_half_even_ge: "of_int k \<le> q \<Longrightarrow> k \<le> round_half_even q"
  using round_half_even_mono[of "of_int k" q] by simp

lemma round_half_even_le: "q \<le> of_int k \<Longrightarrow> round_half_even q \<le> k"
  using round_half_even_mono[of q "of_int k"] by simp

lemma double_pos:
  assumes "0 < x"
  shows "double x = of_int (round_half_even (x / 2 powi (floor_log2 x - 52))) * 2 powi (floor_log2 x - 52)"
  using assms by (simp add: double_def Let_def)

lemma double_binade:
  assumes "0 < x"
  shows "2 powi (floor_log2 x) \<le> double x" and "double x \<le> 2 powi (floor_log2 x + 1)"
proof -
  define e where "e = floor_log2 x"
  define u :: rat where "u = 2 powi (e - 52)"
  have u: "0 < u" by (simp add: u_def zero_less_power_int)
  have d: "double x = of_int (round_half_even (x / u)) * u"
    using assms by (simp add: double_pos e_def u_def)
  have lo: "2 powi e \<le> x" and hi: "x < 2 powi (e + 1)"
    using floor_log2_bounds[OF assms] by (simp_all add: e_def)
  have e1: "(2::rat) powi e = of_int (2 ^ 52) * u"
    by (simp add: u_def power_int_diff)
  have e2: "(2::rat) powi (e + 1) = of_int (2 ^ 53) * u"
    by (simp add: u_def power_int_diff power_int_add)
  have "of_int (2 ^ 52) \<le> x / u" using lo u by (simp add: e1 pos_le_divide_eq)
  then have "(2 ^ 52 :: int) \<le> round_half_even (x / u)" by (rule round_half_even_ge)
  then have "(of_int (2 ^ 52) :: rat) \<le> of_int (round_half_even (x / u))"
    by (simp only: of_int_le_iff)
  then show "2 powi (floor_log2 x) \<le> double x"
    using u by (simp add: d e1 e_def[symmetric])
  have "x / u \<le> of_int (2 ^ 53)" using hi u by (simp add: e2 pos_divide_le_eq less_imp_le)
  then have "round_half_even (x / u) \<le> (2 ^ 53 :: int)" by (rule round_half_even_le)
  then have "(of_int (round_half_even (x / u)) :: rat) \<le> of_int (2 ^ 53)"
    by (simp only: of_int_le_iff)
  then show "double x \<le> 2 powi (floor_log2 x + 1)"
    using u by (simp add: d e2 e_def[symmetric])
qed

lemma double_mono_pos:
  assumes "0 < x" "x \<le> y"
  shows "double x \<le> double y"
proof -
  from assms have y: "0 < y" by simp
  have le: "floor_log2 x \<le> floor_log2 y" by (rule floor_log2_mono[OF assms])
  show ?thesis
  proof (cases "floor_log2 x = floor_log2 y")
    case True
    define u :: rat where "u = 2 powi (floor_log2 y - 52)"
    have u: "0 < u" by (simp add: u_def zero_less_power_int)
    have "x / u \<le> y / u" using assms u by (simp add: divide_right_mono)
    then have "round_half_even (x / u) \<le> round_half_even (y / u)" by (rule round_half_even_mono)
    then have "(of_int (round_half_even (x / u)) :: rat) \<le> of_int (round_half_even (y / u))"
      by (simp only: of_int_le_iff)
    then show ?thesis using u
      by (simp add: double_pos assms(1) y True u_def[symmetric])
  next
    case False
    with le have "floor_log2 x + 1 \<le> floor_log2 y" by simp
    then have "(2::rat) powi (floor_log2 x + 1) \<le> 2 powi (floor_log2 y)"
      by (intro power_int_increasing) auto
    then show ?thesis
      using double_binade(2)[OF assms(1)] double_binade(1)[OF y] by linarith
  qed
qed

lemma double_zero [simp]: "double 0 = 0"
  by (simp add: double_def)

lemma double_nonneg:
  assumes "0 \<le> x"
  shows "0 \<le> double x"
proof (cases "x = 0")
  case True
  then show ?thesis by simp
next
  case False
  with assms have x: "0 < x" by simp
  have "(0::rat) < 2 powi floor_log2 x" by (simp add: zero_less_power_int)
  with double_binade(1)[OF x] show ?thesis by linarith
qed

lemma double_mono_nonneg:
  assumes "0 \<le> x" "x \<le> y"
  shows "double x \<le> double y"
proof (cases "x = 0")
  case True
  then show ?thesis using assms double_nonneg[of y] by simp
next
  case False
  then show ?thesis using assms by (intro double_mono_pos) auto
qed

lemma double_minus: "double (- x) = - double x"
  by (simp add: double_def Let_def)

lemma double_half: "double (1 / 2) = 1 / 2"
  by code_simp

lemma double_50: "double 50 = 50"
  by code_simp

lemma double_below_half: "double (1 / 2 - 1 / 2 ^ 54) = 1 / 2 - 1 / 2 ^ 54"
  by code_simp

lemma double_below_50: "double ((1 / 2 - 1 / 2 ^ 54) * 100) < 50"
  by code_simp

lemma percent_at_least_50:
  assumes a: "0 \<le> a" and b: "0 < b" and small: "b \<le> 2 ^ 53"
  shows "(50 \<le> fmul (fdiv (of_int a) (of_int b)) 100) = (b \<le> 2 * a)"
proof
  assume le: "b \<le> 2 * a"
  have bq: "(0::rat) < of_int b" using b by simp
  have "(of_int b :: rat) \<le> of_int (2 * a)" using le by (simp only: of_int_le_iff)
  then have "(1 / 2 :: rat) \<le> of_int a / of_int b"
    using bq by (simp add: pos_le_divide_eq)
  then have "double (1 / 2) \<le> double (of_int a / of_int b)"
    by (intro double_mono_nonneg) auto
  then have h: "1 / 2 \<le> fdiv (of_int a) (of_int b)"
    by (simp add: double_half fdiv_def)
  then have "double 50 \<le> double (fdiv (of_int a) (of_int b) * 100)"
    by (intro double_mono_nonneg) auto
  then show "50 \<le> fmul (fdiv (of_int a) (of_int b)) 100"
    by (simp add: double_50 fmul_def)
next
  assume ge: "50 \<le> fmul (fdiv (of_int a) (of_int b)) 100"
  show "b \<le> 2 * a"
  proof (rule ccontr)
    assume "\<not> b \<le> 2 * a"
    then have lt: "2 * a + 1 \<le> b" by simp
    have bq: "(0::rat) < of_int b" using b by simp
    have q0: "(0::rat) \<le> of_int a / of_int b" using a b by simp
    have "(of_int (2 * a + 1) :: rat) \<le> of_int b" using lt by (simp only: of_int_le_iff)
    then have "(of_int a :: rat) \<le> (of_int b - 1) / 2" by simp
    then have "(of_int a :: rat) / of_int b \<le> ((of_int b - 1) / 2) / of_int b"
      using bq by (intro divide_right_mono) auto
    also have "\<dots> = 1 / 2 - 1 / (2 * of_int b)"
      using bq by (simp add: field_simps)
    also have "\<dots> \<le> 1 / 2 - 1 / 2 ^ 54"
    proof -
      have "(of_int b :: rat) \<le> of_int (2 ^ 53)" using small by (simp only: of_int_le_iff)
      then have "2 * (of_int b :: rat) \<le> 2 ^ 54" by simp
      then have "1 / (2 ^ 54 :: rat) \<le> 1 / (2 * of_int b)"
        using bq by (intro divide_left_mono) auto
      then show ?thesis by simp
    qed
    finally have q1: "(of_int a :: rat) / of_int b \<le> 1 / 2 - 1 / 2 ^ 54" .
    have "double (of_int a / of_int b) \<le> double (1 / 2 - 1 / 2 ^ 54)"
      using q0 q1 by (rule double_mono_nonneg)
    then have f1: "fdiv (of_int a) (of_int b) \<le> 1 / 2 - 1 / 2 ^ 54"
      by (simp only: double_below_half fdiv_def)
    have f0: "0 \<le> fdiv (of_int a) (of_int b)"
      unfolding fdiv_def using q0 by (rule double_nonneg)
    have "double (fdiv (of_int a) (of_int b) * 100) \<le> double ((1 / 2 - 1 / 2 ^ 54) * 100)"
      using f0 f1 by (intro double_mono_nonneg) auto
    also have "\<dots> < 50" by (rule double_below_50)
    finally have "fmul (fdiv (of_int a) (of_int b)) 100 < 50" by (simp only: fmul_def)
    with ge show False by simp
  qed
qed


lemma floor_log2_unique:
  assumes "2 powi e \<le> x" "x < 2 powi (e + 1)"
  shows "floor_log2 x = e"
proof -
  have "(0::rat) < 2 powi e" by (simp add: zero_less_power_int)
  with assms(1) have x: "0 < x" by linarith
  note b = floor_log2_bounds[OF x]
  have "\<not> floor_log2 x + 1 \<le> e"
  proof
    assume "floor_log2 x + 1 \<le> e"
    then have "(2::rat) powi (floor_log2 x + 1) \<le> 2 powi e" by (intro power_int_increasing) auto
    with b(2) assms(1) show False by linarith
  qed
  moreover have "\<not> e + 1 \<le> floor_log2 x"
  proof
    assume "e + 1 \<le> floor_log2 x"
    then have "(2::rat) powi (e + 1) \<le> 2 powi (floor_log2 x)" by (intro power_int_increasing) auto
    with b(1) assms(2) show False by linarith
  qed
  ultimately show ?thesis by linarith
qed

lemma double_of_multiple:
  assumes n: "2 ^ 52 \<le> n" "n < 2 ^ 53"
  shows "double (of_int n * 2 powi (e - 52)) = of_int n * 2 powi (e - 52)"
proof -
  define u :: rat where "u = 2 powi (e - 52)"
  have u: "0 < u" by (simp add: u_def zero_less_power_int)
  have e1: "(2::rat) powi e = of_int (2 ^ 52) * u"
    by (simp add: u_def power_int_diff)
  have e2: "(2::rat) powi (e + 1) = of_int (2 ^ 53) * u"
    by (simp add: u_def power_int_diff power_int_add)
  have n1: "(of_int (2 ^ 52) :: rat) \<le> of_int n" using n(1) by (simp only: of_int_le_iff)
  have n2: "(of_int n :: rat) < of_int (2 ^ 53)" using n(2) by (simp only: of_int_less_iff)
  have lo: "2 powi e \<le> of_int n * u" unfolding e1 using n1 u by (intro mult_right_mono) auto
  have hi: "of_int n * u < 2 powi (e + 1)" unfolding e2 using n2 u by (intro mult_strict_right_mono) auto
  have fl: "floor_log2 (of_int n * u) = e" using lo hi by (rule floor_log2_unique)
  have pos: "0 < of_int n * u" using lo zero_less_power_int[of "2::rat" e] by linarith
  show ?thesis
    using u unfolding u_def[symmetric] by (simp add: double_pos[OF pos] fl u_def[symmetric])
qed

lemma double_idem [simp]: "double (double x) = double x"
proof -
  have pos: "double (double x) = double x" if x: "0 < x" for x
  proof -
    define e where "e = floor_log2 x"
    define u :: rat where "u = 2 powi (e - 52)"
    define n where "n = round_half_even (x / u)"
    have u: "0 < u" by (simp add: u_def zero_less_power_int)
    have d: "double x = of_int n * u"
      using x by (simp add: double_pos e_def u_def n_def)
    have lo: "2 powi e \<le> x" and hi: "x < 2 powi (e + 1)"
      using floor_log2_bounds[OF x] by (simp_all add: e_def)
    have e1: "(2::rat) powi e = of_int (2 ^ 52) * u"
      by (simp add: u_def power_int_diff)
    have e2: "(2::rat) powi (e + 1) = of_int (2 ^ 53) * u"
      by (simp add: u_def power_int_diff power_int_add)
    have "of_int (2 ^ 52) \<le> x / u" using lo u by (simp add: e1 pos_le_divide_eq)
    then have n1: "2 ^ 52 \<le> n" unfolding n_def by (rule round_half_even_ge)
    have "x / u \<le> of_int (2 ^ 53)" using hi u by (simp add: e2 pos_divide_le_eq less_imp_le)
    then have n2: "n \<le> 2 ^ 53" unfolding n_def by (rule round_half_even_le)
    show ?thesis
    proof (cases "n = 2 ^ 53")
      case False
      with n2 have "n < 2 ^ 53" by simp
      from double_of_multiple[OF n1 this, of e] show ?thesis by (simp add: d u_def)
    next
      case True
      have "double x = of_int (2 ^ 52) * 2 powi (e + 1 - 52)"
        by (simp add: d True u_def power_int_diff power_int_add)
      moreover have "double (of_int (2 ^ 52) * 2 powi (e + 1 - 52)) = of_int (2 ^ 52) * 2 powi (e + 1 - 52)"
        by (rule double_of_multiple) simp_all
      ultimately show ?thesis by simp
    qed
  qed
  consider "x = 0" | "0 < x" | "x < 0" by linarith
  then show ?thesis
  proof cases
    case 1 then show ?thesis by simp
  next
    case 2 then show ?thesis by (rule pos)
  next
    case 3
    then have "double (double (- x)) = double (- x)" by (intro pos) simp
    then show ?thesis by (simp add: double_minus)
  qed
qed


section \<open>Properties of \<open>generateRecommendations\<close>\<close>

lemma absorb_pair:
  "absorb (recs, seen) c =
     (if title c \<notin> seen then (recs @ [c], insert (title c) seen) else (recs, seen))"
  by (simp add: absorb_def)

lemma visit_rule_absorb:
  "visit_rule finding st r = (if test (pattern r) finding then absorb st (recommend r) else st)"
  by (cases st) (simp add: visit_rule_def absorb_def recommend_def)

lemma visit_finding_absorb:
  "visit_finding table st finding =
     foldl absorb st (map recommend (filter (\<lambda>r. test (pattern r) finding) table))"
  unfolding visit_finding_def
  by (induction table arbitrary: st) (simp_all add: visit_rule_absorb)

lemma foldl_visit_finding:
  "foldl (visit_finding table) st allFindings = foldl absorb st (candidates table allFindings)"
  by (induction allFindings arbitrary: st) (simp_all add: candidates_def visit_finding_absorb)

lemma filter_first_by_title:
  "filter (\<lambda>d. title d \<noteq> t) (first_by_title cs) = first_by_title (filter (\<lambda>d. title d \<noteq> t) cs)"
proof (induction cs rule: first_by_title.induct)
  case 1
  show ?case by simp
next
  case (2 c cs)
  have comm: "filter (\<lambda>d. title d \<noteq> t) (filter (\<lambda>d. title d \<noteq> title c) cs)
      = filter (\<lambda>d. title d \<noteq> title c) (filter (\<lambda>d. title d \<noteq> t) cs)"
    by (simp add: conj_commute)
  show ?case
  proof (cases "title c = t")
    case True
    then show ?thesis using 2 by simp
  next
    case False
    then show ?thesis using 2 by (simp add: conj_commute)
  qed
qed

lemma foldl_absorb:
  "foldl absorb (recs, seen) cs =
     (recs @ first_by_title (filter (\<lambda>c. title c \<notin> seen) cs), seen \<union> title ` set cs)"
proof (induction cs arbitrary: recs seen)
  case Nil
  show ?case by simp
next
  case (Cons c cs)
  show ?case
  proof (cases "title c \<in> seen")
    case True
    then show ?thesis by (auto simp: absorb_pair Cons.IH)
  next
    case False
    have "filter (\<lambda>d. title d \<notin> insert (title c) seen) cs
        = filter (\<lambda>d. title d \<noteq> title c) (filter (\<lambda>d. title d \<notin> seen) cs)"
      by (auto intro: filter_cong)
    with False show ?thesis by (simp add: absorb_pair Cons.IH)
  qed
qed

lemma scan_findings_first_by_title:
  "scan_findings table allFindings = first_by_title (candidates table allFindings)"
  by (simp add: scan_findings_def foldl_visit_finding foldl_absorb)

lemma set_first_by_title: "title ` set (first_by_title cs) = title ` set cs"
proof (induction cs rule: first_by_title.induct)
  case 1 show ?case by simp
next
  case (2 c cs)
  then show ?case by auto
qed

lemma set_first_by_title_subset: "set (first_by_title cs) \<subseteq> set cs"
proof (induction cs rule: first_by_title.induct)
  case 1 show ?case by simp
next
  case (2 c cs)
  then show ?case by auto
qed

lemma distinct_first_by_title: "distinct (map title (first_by_title cs))"
proof (induction cs rule: first_by_title.induct)
  case 1 show ?case by simp
next
  case (2 c cs)
  have "title c \<notin> title ` set (first_by_title (filter (\<lambda>d. title d \<noteq> title c) cs))"
    by (auto simp: set_first_by_title)
  with 2 show ?case by simp
qed

lemma count_first_by_title:
  "length (filter (\<lambda>d. title d = t) (first_by_title cs)) = (if t \<in> title ` set cs then 1 else 0)"
proof -
  have d: "distinct (map title (first_by_title cs))" by (rule distinct_first_by_title)
  have "length (filter (\<lambda>d. title d = t) xs) = (if t \<in> title ` set xs then 1 else 0)"
    if "distinct (map title xs)" for xs :: "recommendation list"
    using that by (induction xs) (auto simp: image_iff)
  from this[OF d] show ?thesis by (simp add: set_first_by_title)
qed

lemma first_by_title_absorbed:
  "title ` set ys \<subseteq> title ` set xs \<Longrightarrow> first_by_title (xs @ ys @ zs) = first_by_title (xs @ zs)"
proof (induction xs arbitrary: ys zs rule: first_by_title.induct)
  case 1
  then show ?case by simp
next
  case (2 c cs)
  let ?keep = "filter (\<lambda>d. title d \<noteq> title c)"
  have "title ` set (?keep ys) \<subseteq> title ` set (?keep cs)"
    using "2.prems" by auto
  from "2.IH"[OF this, of "?keep zs"] show ?case by simp
qed

lemma candidates_append:
  "candidates table (fs @ gs) = candidates table fs @ candidates table gs"
  by (simp add: candidates_def)

lemma title_recommend: "title (recommend r) = title r"
  by (simp add: recommend_def)

lemma titles_candidates:
  "title ` set (candidates table allFindings) =
     {title r | r. r \<in> set table \<and> (\<exists>finding \<in> set allFindings. test (pattern r) finding)}"
proof (intro set_eqI iffI)
  fix t assume "t \<in> title ` set (candidates table allFindings)"
  then obtain finding r where "finding \<in> set allFindings" "r \<in> set table"
      "test (pattern r) finding" "t = title (recommend r)"
    by (auto simp: candidates_def)
  then show "t \<in> {title r | r. r \<in> set table \<and> (\<exists>finding \<in> set allFindings. test (pattern r) finding)}"
    by (auto simp: title_recommend)
next
  fix t assume "t \<in> {title r | r. r \<in> set table \<and> (\<exists>finding \<in> set allFindings. test (pattern r) finding)}"
  then obtain finding r where fr: "finding \<in> set allFindings" "r \<in> set table"
      "test (pattern r) finding" "t = title r"
    by auto
  then have "recommend r \<in> set (candidates table allFindings)"
    by (auto simp: candidates_def)
  then show "t \<in> title ` set (candidates table allFindings)"
    using fr(4) title_recommend by (metis image_eqI)
qed

lemma distinct_titles_RECOMMENDATION_MAP: "distinct (map title RECOMMENDATION_MAP)"
  by (simp add: RECOMMENDATION_MAP_def rule_def)

lemma generateRecommendations_first_by_title:
  "generateRecommendations sections =
     first_by_title (candidates RECOMMENDATION_MAP (concat (map findings sections)))"
  by (simp add: generateRecommendations_def scan_findings_first_by_title)

lemma candidates_repeated:
  assumes "finding \<in> set fs"
  shows "title ` set (candidates table [finding]) \<subseteq> title ` set (candidates table fs)"
  using assms unfolding titles_candidates by auto

lemma same_title_same_rule:
  assumes "r \<in> set RECOMMENDATION_MAP" "r' \<in> set RECOMMENDATION_MAP" "title r' = title r"
  shows "r' = r"
proof -
  have "inj_on title (set RECOMMENDATION_MAP)"
    using distinct_titles_RECOMMENDATION_MAP by (simp only: distinct_map)
  with assms show ?thesis by (simp only: inj_on_def)
qed

lemma generateRecommendations_count:
  assumes r: "r \<in> set RECOMMENDATION_MAP"
  shows "length (filter (\<lambda>d. title d = title r) (generateRecommendations sections)) =
          (if \<exists>finding \<in> set (concat (map findings sections)). test (pattern r) finding then 1 else 0)"
proof -
  let ?fs = "concat (map findings sections)"
  have "title r \<in> title ` set (candidates RECOMMENDATION_MAP ?fs)
        \<longleftrightarrow> (\<exists>finding \<in> set ?fs. test (pattern r) finding)"
  proof
    assume "title r \<in> title ` set (candidates RECOMMENDATION_MAP ?fs)"
    then obtain r' where r': "r' \<in> set RECOMMENDATION_MAP" "title r = title r'"
        "\<exists>finding \<in> set ?fs. test (pattern r') finding"
      unfolding titles_candidates by blast
    from same_title_same_rule[OF r r'(1)] r'(2) have "r' = r" by simp
    with r'(3) show "\<exists>finding \<in> set ?fs. test (pattern r) finding" by simp
  next
    assume "\<exists>finding \<in> set ?fs. test (pattern r) finding"
    with r show "title r \<in> title ` set (candidates RECOMMENDATION_MAP ?fs)"
      unfolding titles_candidates by blast
  qed
  then show ?thesis
    by (simp only: generateRecommendations_first_by_title count_first_by_title)
qed


lemma generateRecommendations_repeated:
  fixes sections :: "'m check_section list" and s :: "'m check_section"
  assumes "finding \<in> set (concat (map findings sections))"
  shows "generateRecommendations (sections @ [s\<lparr>findings := [finding]\<rparr>]) =
          generateRecommendations sections"
proof -
  let ?fs = "concat (map findings sections)"
  have fs: "concat (map findings (sections @ [s\<lparr>findings := [finding]\<rparr>])) = ?fs @ [finding]"
    by simp
  from first_by_title_absorbed[OF candidates_repeated[OF assms], of RECOMMENDATION_MAP "[]"]
  have "first_by_title (candidates RECOMMENDATION_MAP ?fs @ candidates RECOMMENDATION_MAP [finding])
      = first_by_title (candidates RECOMMENDATION_MAP ?fs)"
    by simp
  then show ?thesis
    by (simp only: generateRecommendations_first_by_title fs candidates_append)
qed

lemma generateRecommendations_twice:
  fixes s :: "'m check_section"
  shows "generateRecommendations [s\<lparr>findings := [finding, finding]\<rparr>] =
        generateRecommendations [s\<lparr>findings := [finding]\<rparr>]"
proof -
  have "finding \<in> set [finding]" by simp
  from first_by_title_absorbed[OF candidates_repeated[OF this], of RECOMMENDATION_MAP "[]"]
  have "first_by_title (candidates RECOMMENDATION_MAP [finding] @ candidates RECOMMENDATION_MAP [finding])
      = first_by_title (candidates RECOMMENDATION_MAP [finding])"
    by simp
  moreover have "candidates RECOMMENDATION_MAP [finding, finding]
      = candidates RECOMMENDATION_MAP [finding] @ candidates RECOMMENDATION_MAP [finding]"
    by (simp add: candidates_def)
  ultimately show ?thesis
    by (simp add: generateRecommendations_first_by_title)
qed

text \<open>
  Claim C9. For every list of sections, \<open>generateRecommendations\<close> emits at most one
  recommendation per rule title: its result is the list of the recommendations of the matching
  rules, taken finding by finding in flattened section order and rule by rule in table order,
  of which only the first entry of each title is kept. A rule of the table has exactly one
  entry when some finding matches it and none otherwise; a finding that already occurred adds
  nothing, and the same finding fed twice gives what it gives once.
\<close>

theorem generateRecommendations_dedup:
  fixes sections :: "'m check_section list" and s :: "'m check_section"
  shows "distinct (map title (generateRecommendations sections))
    \<and> generateRecommendations sections =
        first_by_title (candidates RECOMMENDATION_MAP (concat (map findings sections)))
    \<and> (\<forall>r \<in> set RECOMMENDATION_MAP.
          length (filter (\<lambda>d. title d = title r) (generateRecommendations sections)) =
            (if \<exists>finding \<in> set (concat (map findings sections)). test (pattern r) finding
             then 1 else 0))
    \<and> (finding \<in> set (concat (map findings sections)) \<longrightarrow>
          generateRecommendations (sections @ [s\<lparr>findings := [finding]\<rparr>]) =
          generateRecommendations sections)
    \<and> generateRecommendations [s\<lparr>findings := [finding, finding]\<rparr>] =
        generateRecommendations [s\<lparr>findings := [finding]\<rparr>]"
proof (intro conjI ballI impI)
  show "distinct (map title (generateRecommendations sections))"
    by (simp only: generateRecommendations_first_by_title distinct_first_by_title)
  show "generateRecommendations sections =
      first_by_title (candidates RECOMMENDATION_MAP (concat (map findings sections)))"
    by (rule generateRecommendations_first_by_title)
  show "length (filter (\<lambda>d. title d = title r) (generateRecommendations sections)) =
          (if \<exists>finding \<in> set (concat (map findings sections)). test (pattern r) finding
           then 1 else 0)"
    if "r \<in> set RECOMMENDATION_MAP" for r
    using that by (rule generateRecommendations_count)
  show "generateRecommendations (sections @ [s\<lparr>findings := [finding]\<rparr>]) =
          generateRecommendations sections"
    if "finding \<in> set (concat (map findings sections))"
    using that by (rule generateRecommendations_repeated)
  show "generateRecommendations [s\<lparr>findings := [finding, finding]\<rparr>] =
      generateRecommendations [s\<lparr>findings := [finding]\<rparr>]"
    by (rule generateRecommendations_twice)
qed

lemma testI: "k \<le> length s \<Longrightarrow> match_here p (drop k s) \<Longrightarrow> test p s"
  unfolding test_def list_ex_iff by (metis atLeast0LessThan lessThan_iff less_Suc_eq_le set_upt)

lemma match_here_DotStarI:
  "k \<le> dot_run s \<Longrightarrow> match_here p (drop k s) \<Longrightarrow> match_here (DotStar # p) s"
  unfolding match_here.simps list_ex_iff by (metis atLeast0LessThan lessThan_iff less_Suc_eq_le set_upt)

lemma no_ttl_rule_test:
  "test (pattern no_ttl_rule) ''60.0% of sampled keys have no TTL - potential memory growth risk''"
proof -
  have p: "pattern no_ttl_rule = [Lit ''keys have no TTL'', DotStar, Lit ''memory growth risk'']"
    by (simp add: no_ttl_rule_def rule_def)
  have 1: "match_here [Lit ''memory growth risk''] ''memory growth risk''"
    by (simp add: lit_matches_def canonicalize_def)
  have 2: "match_here [DotStar, Lit ''memory growth risk''] '' - potential memory growth risk''"
    by (rule match_here_DotStarI[where k = 13]) (simp_all add: line_terminator_at_def lit_matches_def canonicalize_def)
  have 3: "match_here (pattern no_ttl_rule) ''keys have no TTL - potential memory growth risk''"
    unfolding p by (simp add: lit_matches_def canonicalize_def 2 del: match_here.simps(3))
  show ?thesis
    by (rule testI[where k = 17]) (simp_all add: 3)
qed

lemma no_ttl_rule_member: "no_ttl_rule \<in> set RECOMMENDATION_MAP"
  by (simp add: no_ttl_rule_def RECOMMENDATION_MAP_def)

theorem generateRecommendations_dedup_witness:
  "no_ttl_rule \<in> set RECOMMENDATION_MAP
   \<and> (\<exists>finding \<in> set (concat (map findings [no_ttl_section])). test (pattern no_ttl_rule) finding)
   \<and> length (filter (\<lambda>d. title d = title no_ttl_rule) (generateRecommendations [no_ttl_section])) = 1
   \<and> ''60.0% of sampled keys have no TTL - potential memory growth risk''
        \<in> set (concat (map findings [no_ttl_section]))
   \<and> generateRecommendations ([no_ttl_section] @ [no_ttl_section\<lparr>findings :=
        [''60.0% of sampled keys have no TTL - potential memory growth risk'']\<rparr>])
      = generateRecommendations [no_ttl_section]"
proof -
  let ?f = "''60.0% of sampled keys have no TTL - potential memory growth risk''"
  have f: "concat (map findings [no_ttl_section]) = [?f]"
    by (simp add: no_ttl_section_def)
  note inst = generateRecommendations_dedup[of "[no_ttl_section]" ?f no_ttl_section]
  have ex: "\<exists>finding \<in> set (concat (map findings [no_ttl_section])). test (pattern no_ttl_rule) finding"
    unfolding f using no_ttl_rule_test by simp
  have mem: "?f \<in> set (concat (map findings [no_ttl_section]))"
    unfolding f by simp
  note count = inst[THEN conjunct2, THEN conjunct2, THEN conjunct1, THEN bspec, OF no_ttl_rule_member]
  note again = inst[THEN conjunct2, THEN conjunct2, THEN conjunct2, THEN conjunct1, THEN mp, OF mem]
  have one: "length (filter (\<lambda>d. title d = title no_ttl_rule) (generateRecommendations [no_ttl_section])) = 1"
    by (simp only: count ex if_True)
  show ?thesis
    by (intro conjI) (rule no_ttl_rule_member ex one mem again)+
qed

section \<open>Properties of the comparison\<close>

lemma formatDelta_swap:
  "formatDelta previous current higherIsBetter formatter =
     flip_cell (formatDelta current previous higherIsBetter formatter)"
proof -
  consider "current = previous" | "current < previous" | "previous < current"
    by linarith
  then show ?thesis
  proof cases
    case 1
    then show ?thesis by (simp add: formatDelta_def flip_cell_def)
  next
    case 2
    then have "\<bar>previous - current\<bar> = \<bar>current - previous\<bar>" by simp
    with 2 show ?thesis by (simp add: formatDelta_def flip_cell_def Let_def)
  next
    case 3
    then have "\<bar>previous - current\<bar> = \<bar>current - previous\<bar>" by simp
    with 3 show ?thesis by (simp add: formatDelta_def flip_cell_def Let_def)
  qed
qed

lemma metric_row_swap:
  "metric_row label p c higherIsBetter formatter =
     map swap_row (metric_row label c p higherIsBetter formatter)"
proof (cases c)
  case None
  then show ?thesis by (cases p) (simp_all add: metric_row_def)
next
  case c: (Some cv)
  show ?thesis
  proof (cases p)
    case None
    then show ?thesis by (simp add: metric_row_def c)
  next
    case (Some pv)
    with c show ?thesis
      by (simp add: metric_row_def swap_row_def formatDelta_swap[of pv cv])
  qed
qed

lemma memory_rows_swap:
  "memory_rows formatBytes previous current = map swap_row (memory_rows formatBytes current previous)"
  by (cases "memory current"; cases "memory previous")
     (simp_all add: memory_rows_def metric_row_swap[symmetric])

lemma performance_rows_swap:
  "performance_rows toString previous current =
     map swap_row (performance_rows toString current previous)"
  by (cases "performance current"; cases "performance previous")
     (simp_all add: performance_rows_def metric_row_swap[symmetric])

lemma connection_rows_swap:
  "connection_rows toString previous current =
     map swap_row (connection_rows toString current previous)"
  by (cases "connections current"; cases "connections previous")
     (simp_all add: connection_rows_def metric_row_swap[symmetric])

lemma summary_rows_swap:
  "summary_rows toString previous current = map swap_row (summary_rows toString current previous)"
proof (cases "summary current")
  case None
  then show ?thesis by (cases "summary previous") (simp_all add: summary_rows_def)
next
  case c: (Some cs)
  show ?thesis
  proof (cases "summary previous")
    case None
    then show ?thesis by (simp add: summary_rows_def c)
  next
    case (Some ps)
    with c show ?thesis
      by (simp add: summary_rows_def swap_row_def
          formatDelta_swap[of "summary_warnings ps" "summary_warnings cs"]
          formatDelta_swap[of "summary_critical ps" "summary_critical cs"])
  qed
qed

text \<open>
  Claim C7. For every pair of snapshots and every compared metric the delta is antisymmetric:
  with current and previous exchanged, \<open>formatDelta\<close> gives the cell with the opposite arrow
  (an unchanged cell stays unchanged) and, for a change, the opposite colour, and the table has
  the same rows with the two value columns exchanged and every cell so flipped. A cell is
  unchanged exactly when the two values are equal.
\<close>

theorem computeDeltas_antisymmetric:
  "formatDelta previous current higherIsBetter formatter =
     flip_cell (formatDelta current previous higherIsBetter formatter)
   \<and> arrow (formatDelta previous current higherIsBetter formatter) =
       negate_arrow (arrow (formatDelta current previous higherIsBetter formatter))
   \<and> ((arrow (formatDelta current previous higherIsBetter formatter) = ArrowRight) = (current = previous))
   \<and> ((current = previous) = (colour (formatDelta current previous higherIsBetter formatter) = Dim))
   \<and> ((colour (formatDelta previous current higherIsBetter formatter) = Green) =
       (colour (formatDelta current previous higherIsBetter formatter) = Red))
   \<and> comparison_rows formatBytes toString earlier later =
       map swap_row (comparison_rows formatBytes toString later earlier)"
proof (intro conjI)
  let ?d = "formatDelta current previous higherIsBetter formatter"
  show swap: "formatDelta previous current higherIsBetter formatter = flip_cell ?d"
    by (rule formatDelta_swap)
  show "arrow (formatDelta previous current higherIsBetter formatter) = negate_arrow (arrow ?d)"
    by (simp add: swap flip_cell_def)
  show "(arrow ?d = ArrowRight) = (current = previous)"
    by (simp add: formatDelta_def Let_def)
  show "(current = previous) = (colour ?d = Dim)"
    by (simp add: formatDelta_def Let_def)
  show "(colour (formatDelta previous current higherIsBetter formatter) = Green) = (colour ?d = Red)"
    by (cases "colour ?d") (simp_all add: swap flip_cell_def)
  show "comparison_rows formatBytes toString earlier later =
      map swap_row (comparison_rows formatBytes toString later earlier)"
    by (simp add: comparison_rows_def memory_rows_swap[of _ earlier later]
        performance_rows_swap[of _ earlier later] connection_rows_swap[of _ earlier later]
        summary_rows_swap[of _ earlier later])
qed

theorem computeDeltas_antisymmetric_witness:
  "comparison_rows (\<lambda>n. toFixed n 0) (\<lambda>n. toFixed n 0) report_b report_a =
     map swap_row (comparison_rows (\<lambda>n. toFixed n 0) (\<lambda>n. toFixed n 0) report_a report_b)
   \<and> map (\<lambda>r. arrow (snd (snd (snd r))))
        (comparison_rows (\<lambda>n. toFixed n 0) (\<lambda>n. toFixed n 0) report_a report_b)
      = [ArrowUp, ArrowRight, ArrowUp, ArrowRight, ArrowUp, ArrowDown]"
proof -
  note inst = computeDeltas_antisymmetric[of 0 0 False "\<lambda>n. toFixed n 0"
      "\<lambda>n. toFixed n 0" "\<lambda>n. toFixed n 0" report_b report_a]
  have rows: "map (\<lambda>r. arrow (snd (snd (snd r))))
        (comparison_rows (\<lambda>n. toFixed n 0) (\<lambda>n. toFixed n 0) report_a report_b)
      = [ArrowUp, ArrowRight, ArrowUp, ArrowRight, ArrowUp, ArrowDown]"
    by (simp add: comparison_rows_def memory_rows_def performance_rows_def connection_rows_def
        summary_rows_def metric_row_def formatDelta_def report_a_def report_b_def Let_def)
  from inst rows show ?thesis by (intro conjI) (simp_all only:)
qed

section \<open>Properties of the performance check\<close>

lemma hit_rate_not_critical:
  assumes stats: "info_stats r = Inr stats" and server: "info_server r = Inr server"
    and le: "keyspace_hits stats + keyspace_misses stats \<le> 100"
  shows "status (runPerformanceCheck r) \<noteq> Critical"
  using le
  by (auto simp: runPerformanceCheck_def stats server Let_def raise_warning_def
      split: sum.splits prod.splits)

lemma hit_rate_ignored:
  assumes stats: "info_stats r = Inr stats" and server: "info_server r = Inr server"
    and le: "keyspace_hits stats + keyspace_misses stats \<le> 100"
  shows "status (runPerformanceCheck r) =
           status (runPerformanceCheck (r\<lparr>info_stats := Inr (all_hits stats)\<rparr>))
       \<and> findings (runPerformanceCheck r) =
           findings (runPerformanceCheck (r\<lparr>info_stats := Inr (all_hits stats)\<rparr>))"
  using le
  by (auto simp: runPerformanceCheck_def stats server Let_def all_hits_def
      split: sum.splits prod.splits)

lemma hit_rate_quiet:
  assumes stats: "info_stats r = Inr stats" and server: "info_server r = Inr server"
    and le: "keyspace_hits stats + keyspace_misses stats \<le> 100"
    and rej: "rejected_connections stats \<le> 0"
    and slow: "slowlog_get r = Inr entries" "slowlog_len r = Inr n" "n \<le> 100"
  shows "status (runPerformanceCheck r) = Ok \<and> findings (runPerformanceCheck r) = []"
  using le rej slow
  by (simp add: runPerformanceCheck_def stats server Let_def)

lemma hit_rate_zero_operations:
  assumes stats: "info_stats r = Inr stats" and server: "info_server r = Inr server"
    and z: "keyspace_hits stats + keyspace_misses stats = 0"
  shows "map_option hitRate (metrics (runPerformanceCheck r)) = Some 0"
  using z
  by (simp add: runPerformanceCheck_def stats server Let_def split: sum.splits prod.splits)

lemma hit_rate_critical:
  assumes stats: "info_stats r = Inr stats" and server: "info_server r = Inr server"
    and gt: "keyspace_hits stats + keyspace_misses stats > 100"
    and low: "fmul (fdiv (of_int (keyspace_hits stats))
                (of_int (keyspace_hits stats + keyspace_misses stats))) 100 < (70::rat)"
  shows "status (runPerformanceCheck r) = Critical
       \<and> hd (findings (runPerformanceCheck r)) = ''Hit rate ''
            @ formatPercent (fmul (fdiv (of_int (keyspace_hits stats))
                (of_int (keyspace_hits stats + keyspace_misses stats))) 100)
            @ '' is critically low (< 70%) - review cache strategy''"
proof -
  have s: "String 70 = ''70''"
    by (simp add: String_def show_nat.simps[of 70] show_nat.simps[of 7] digit_char_def)
  show ?thesis
    using gt low
    by (auto simp: runPerformanceCheck_def stats server Let_def raise_warning_def s
        HIT_RATE_CRITICAL_PERCENT_def split: sum.splits prod.splits)
qed

lemma hit_rate_warning:
  assumes stats: "info_stats r = Inr stats" and server: "info_server r = Inr server"
    and gt: "keyspace_hits stats + keyspace_misses stats > 100"
    and mid: "(70::rat) \<le> fmul (fdiv (of_int (keyspace_hits stats))
                (of_int (keyspace_hits stats + keyspace_misses stats))) 100"
             "fmul (fdiv (of_int (keyspace_hits stats))
                (of_int (keyspace_hits stats + keyspace_misses stats))) 100 < (90::rat)"
  shows "status (runPerformanceCheck r) = Warning
       \<and> hd (findings (runPerformanceCheck r)) = ''Hit rate ''
            @ formatPercent (fmul (fdiv (of_int (keyspace_hits stats))
                (of_int (keyspace_hits stats + keyspace_misses stats))) 100)
            @ '' is below optimal (< 90%) - consider reviewing cache patterns''"
proof -
  have s: "String 90 = ''90''"
    by (simp add: String_def show_nat.simps[of 90] show_nat.simps[of 9] digit_char_def)
  show ?thesis
    using gt mid
    by (auto simp: runPerformanceCheck_def stats server Let_def raise_warning_def s
        HIT_RATE_CRITICAL_PERCENT_def HIT_RATE_WARNING_PERCENT_def split: sum.splits prod.splits)
qed

text \<open>
  Claim C10. In a performance check whose two \<^verbatim>\<open>INFO\<close> commands succeed, the hit-rate
  thresholds apply only when hits plus misses exceed 100. With 100 lookups or fewer the status
  is never critical, status and findings are those of the same server with every lookup a hit,
  and they are ok and empty when no connection was rejected and the slow log holds at most 100
  entries; with no lookup at all the reported hit rate is 0. With more than 100 lookups a hit
  rate below 70 makes the section critical and a hit rate from 70 to below 90 makes it a
  warning, each with its finding first.
\<close>

theorem hit_rate_needs_100_operations:
  assumes "info_stats r = Inr stats" and "info_server r = Inr server"
  shows "(keyspace_hits stats + keyspace_misses stats \<le> 100 \<longrightarrow>
            status (runPerformanceCheck r) \<noteq> Critical
          \<and> status (runPerformanceCheck r) =
              status (runPerformanceCheck (r\<lparr>info_stats := Inr (all_hits stats)\<rparr>))
          \<and> findings (runPerformanceCheck r) =
              findings (runPerformanceCheck (r\<lparr>info_stats := Inr (all_hits stats)\<rparr>))
          \<and> (rejected_connections stats \<le> 0
               \<and> (\<exists>entries n. slowlog_get r = Inr entries \<and> slowlog_len r = Inr n \<and> n \<le> 100)
              \<longrightarrow> status (runPerformanceCheck r) = Ok \<and> findings (runPerformanceCheck r) = []))
       \<and> (keyspace_hits stats + keyspace_misses stats = 0 \<longrightarrow>
            map_option hitRate (metrics (runPerformanceCheck r)) = Some 0)
       \<and> (keyspace_hits stats + keyspace_misses stats > 100
            \<and> fmul (fdiv (of_int (keyspace_hits stats))
                (of_int (keyspace_hits stats + keyspace_misses stats))) 100 < (70::rat) \<longrightarrow>
            status (runPerformanceCheck r) = Critical
          \<and> hd (findings (runPerformanceCheck r)) = ''Hit rate ''
              @ formatPercent (fmul (fdiv (of_int (keyspace_hits stats))
                (of_int (keyspace_hits stats + keyspace_misses stats))) 100)
              @ '' is critically low (< 70%) - review cache strategy'')
       \<and> (keyspace_hits stats + keyspace_misses stats > 100
            \<and> (70::rat) \<le> fmul (fdiv (of_int (keyspace_hits stats))
                (of_int (keyspace_hits stats + keyspace_misses stats))) 100
            \<and> fmul (fdiv (of_int (keyspace_hits stats))
                (of_int (keyspace_hits stats + keyspace_misses stats))) 100 < (90::rat) \<longrightarrow>
            status (runPerformanceCheck r) = Warning
          \<and> hd (findings (runPerformanceCheck r)) = ''Hit rate ''
              @ formatPercent (fmul (fdiv (of_int (keyspace_hits stats))
                (of_int (keyspace_hits stats + keyspace_misses stats))) 100)
              @ '' is below optimal (< 90%) - consider reviewing cache patterns'')"
proof (intro conjI impI)
  assume le: "keyspace_hits stats + keyspace_misses stats \<le> 100"
  show "status (runPerformanceCheck r) \<noteq> Critical"
    by (rule hit_rate_not_critical[OF assms le])
  show "status (runPerformanceCheck r) =
      status (runPerformanceCheck (r\<lparr>info_stats := Inr (all_hits stats)\<rparr>))"
    by (rule hit_rate_ignored[OF assms le, THEN conjunct1])
  show "findings (runPerformanceCheck r) =
      findings (runPerformanceCheck (r\<lparr>info_stats := Inr (all_hits stats)\<rparr>))"
    by (rule hit_rate_ignored[OF assms le, THEN conjunct2])
  assume quiet: "rejected_connections stats \<le> 0
      \<and> (\<exists>entries n. slowlog_get r = Inr entries \<and> slowlog_len r = Inr n \<and> n \<le> 100)"
  then obtain entries n where slow: "slowlog_get r = Inr entries" "slowlog_len r = Inr n" "n \<le> 100"
    by blast
  from quiet have rej: "rejected_connections stats \<le> 0" by simp
  show "status (runPerformanceCheck r) = Ok"
    by (rule hit_rate_quiet[OF assms le rej slow, THEN conjunct1])
  show "findings (runPerformanceCheck r) = []"
    by (rule hit_rate_quiet[OF assms le rej slow, THEN conjunct2])
next
  assume "keyspace_hits stats + keyspace_misses stats = 0"
  then show "map_option hitRate (metrics (runPerformanceCheck r)) = Some 0"
    by (rule hit_rate_zero_operations[OF assms])
next
  assume c: "keyspace_hits stats + keyspace_misses stats > 100
      \<and> fmul (fdiv (of_int (keyspace_hits stats))
                (of_int (keyspace_hits stats + keyspace_misses stats))) 100 < (70::rat)"
  show "status (runPerformanceCheck r) = Critical"
    by (rule hit_rate_critical[OF assms c[THEN conjunct1] c[THEN conjunct2], THEN conjunct1])
  show "hd (findings (runPerformanceCheck r)) = ''Hit rate ''
      @ formatPercent (fmul (fdiv (of_int (keyspace_hits stats))
                (of_int (keyspace_hits stats + keyspace_misses stats))) 100)
      @ '' is critically low (< 70%) - review cache strategy''"
    by (rule hit_rate_critical[OF assms c[THEN conjunct1] c[THEN conjunct2], THEN conjunct2])
next
  assume w: "keyspace_hits stats + keyspace_misses stats > 100
      \<and> (70::rat) \<le> fmul (fdiv (of_int (keyspace_hits stats))
                (of_int (keyspace_hits stats + keyspace_misses stats))) 100
      \<and> fmul (fdiv (of_int (keyspace_hits stats))
                (of_int (keyspace_hits stats + keyspace_misses stats))) 100 < (90::rat)"
  note w1 = w[THEN conjunct1] and w2 = w[THEN conjunct2, THEN conjunct1]
    and w3 = w[THEN conjunct2, THEN conjunct2]
  show "status (runPerformanceCheck r) = Warning"
    by (rule hit_rate_warning[OF assms w1 w2 w3, THEN conjunct1])
  show "hd (findings (runPerformanceCheck r)) = ''Hit rate ''
      @ formatPercent (fmul (fdiv (of_int (keyspace_hits stats))
                (of_int (keyspace_hits stats + keyspace_misses stats))) 100)
      @ '' is below optimal (< 90%) - consider reviewing cache patterns''"
    by (rule hit_rate_warning[OF assms w1 w2 w3, THEN conjunct2])
qed

theorem hit_rate_needs_100_operations_witness:
  "info_stats cold_cache_redis = Inr cold_cache_stats
   \<and> info_server cold_cache_redis = Inr \<lparr>redis_version = ''7.2.4'', uptime_in_seconds = 86400\<rparr>
   \<and> keyspace_hits cold_cache_stats + keyspace_misses cold_cache_stats \<le> 100
   \<and> rejected_connections cold_cache_stats \<le> 0
   \<and> (\<exists>entries n. slowlog_get cold_cache_redis = Inr entries
        \<and> slowlog_len cold_cache_redis = Inr n \<and> n \<le> 100)
   \<and> status (runPerformanceCheck cold_cache_redis) = Ok
   \<and> findings (runPerformanceCheck cold_cache_redis) = []"
proof -
  have stats: "info_stats cold_cache_redis = Inr cold_cache_stats"
    by (simp add: cold_cache_redis_def)
  have server: "info_server cold_cache_redis
      = Inr \<lparr>redis_version = ''7.2.4'', uptime_in_seconds = 86400\<rparr>"
    by (simp add: cold_cache_redis_def quiet_redis_def)
  have le: "keyspace_hits cold_cache_stats + keyspace_misses cold_cache_stats \<le> 100"
    by (simp add: cold_cache_stats_def)
  have rej: "rejected_connections cold_cache_stats \<le> 0"
    by (simp add: cold_cache_stats_def)
  have slow: "\<exists>entries n. slowlog_get cold_cache_redis = Inr entries
        \<and> slowlog_len cold_cache_redis = Inr n \<and> n \<le> 100"
    by (simp add: cold_cache_redis_def quiet_redis_def)
  note inst = hit_rate_needs_100_operations[OF stats server, THEN conjunct1, THEN mp, OF le]
  note ok = inst[THEN conjunct2, THEN conjunct2, THEN conjunct2, THEN mp, OF conjI[OF rej slow]]
  show ?thesis
    by (intro conjI) (rule stats server le rej slow ok[THEN conjunct1] ok[THEN conjunct2])+
qed

section \<open>Properties of the key sampling\<close>

lemma concat_batches: "0 < n \<Longrightarrow> concat (batches n xs) = xs"
proof (induction n xs rule: batches.induct)
  case (1 n xs)
  show ?case
  proof (cases "xs = []")
    case True
    then show ?thesis by (simp add: batches.simps)
  next
    case False
    with 1 show ?thesis by (subst batches.simps) simp
  qed
qed

lemma ttl_total_count_ttl: "ttl_total (count_ttl d t) = ttl_total d + 1"
  by (simp add: count_ttl_def ttl_total_def split: option.splits)

lemma none_count_ttl:
  "none (count_ttl d t) = none d + (if t = Some (- 1) then 1 else 0)"
  by (simp add: count_ttl_def split: option.splits)

lemma process_key_ttl:
  "timeToLiveDistribution (process_key st k reply) =
     count_ttl (timeToLiveDistribution st) (ttl_reply reply)"
  by (simp add: process_key_def Let_def)

lemma process_key_keySizes:
  "keySizes (process_key st k reply) =
     keySizes st @ [\<lparr>key = k, type = or_unknown (type_reply reply),
                     bytes = or_zero (memory_reply reply)\<rparr>]"
  by (simp add: process_key_def Let_def)

lemma foldl_process_ttl:
  "ttl_total (timeToLiveDistribution
      (foldl (\<lambda>st (keyIndex, k). process_key st k (reply_at replies keyIndex)) st (enumerate i batch)))
   = ttl_total (timeToLiveDistribution st) + length batch"
  by (induction batch arbitrary: st i) (simp_all add: process_key_ttl ttl_total_count_ttl)

lemma foldl_process_keys:
  "map key (keySizes
      (foldl (\<lambda>st (keyIndex, k). process_key st k (reply_at replies keyIndex)) st (enumerate i batch)))
   = map key (keySizes st) @ batch"
  by (induction batch arbitrary: st i) (simp_all add: process_key_keySizes)

lemma process_batch_ttl:
  "ttl_total (timeToLiveDistribution (process_batch st batch replies))
     = ttl_total (timeToLiveDistribution st) + length batch"
  by (simp add: process_batch_def foldl_process_ttl)

lemma process_batch_keys:
  "map key (keySizes (process_batch st batch replies)) = map key (keySizes st) @ batch"
  by (simp add: process_batch_def foldl_process_keys)

lemma run_batches_done:
  assumes "run_batches r n bs st = (Inr st', sent)"
  shows "ttl_total (timeToLiveDistribution st')
           = ttl_total (timeToLiveDistribution st) + length (concat bs)
       \<and> map key (keySizes st') = map key (keySizes st) @ concat bs
       \<and> sent = bs"
  using assms
proof (induction bs arbitrary: n st sent)
  case Nil
  then show ?case by simp
next
  case (Cons batch rest)
  from Cons.prems obtain replies where ex: "pipeline_exec r n batch = Inr replies"
    by (cases "pipeline_exec r n batch") auto
  obtain outcome sent' where rec:
    "run_batches r (Suc n) rest (process_batch st batch replies) = (outcome, sent')"
    by (cases "run_batches r (Suc n) rest (process_batch st batch replies)")
  with Cons.prems ex have "outcome = Inr st'" "sent = batch # sent'" by simp_all
  with rec Cons.IH[of "Suc n" "process_batch st batch replies" sent']
  show ?case by (simp add: process_batch_ttl process_batch_keys)
qed

lemma metrics_failed: "metrics (failed t what fs e) = None"
  by (simp add: failed_def)

lemma analyse_sample_SampledE:
  assumes run: "analyse_sample r mx dbs nk ne scanned = (result, sent)"
    and m: "metrics result = Some (Sampled m)"
  obtains sampledKeys st where
    "trim_sample mx scanned = Inr sampledKeys"
    "run_batches r 0 (batches PIPELINE_BATCH_SIZE sampledKeys) initial_state = (Inr st, sent)"
    "timeToLiveDistribution m = timeToLiveDistribution st"
    "typeDistribution m = typeDistribution st"
    "encodingDistribution m = encodingDistribution st"
    "sampledCount m = length sampledKeys"
    "topKeys m = take TOP_KEYS_COUNT (sort_key (\<lambda>e. - bytes e) (keySizes st))"
    "noTimeToLivePercent m =
       (if length sampledKeys > 0
        then fmul (fdiv (of_nat (none (timeToLiveDistribution st))) (of_nat (length sampledKeys))) 100 else 0)"
    "status result = (if noTimeToLivePercent m \<ge> 50 then Warning else Ok)"
    "findings result =
       (if noTimeToLivePercent m \<ge> 50
        then [formatPercent (noTimeToLivePercent m)
                @ '' of sampled keys have no TTL - potential memory growth risk'']
        else [])"
proof (cases "trim_sample mx scanned")
  case (Inl e)
  with run m show ?thesis
    by (auto simp: analyse_sample_def metrics_failed)
next
  case (Inr sampledKeys)
  obtain outcome sent' where rb:
    "run_batches r 0 (batches PIPELINE_BATCH_SIZE sampledKeys) initial_state = (outcome, sent')"
    by (cases "run_batches r 0 (batches PIPELINE_BATCH_SIZE sampledKeys) initial_state")
  show ?thesis
  proof (cases outcome)
    case (Inl e)
    with run m Inr rb show ?thesis
      by (auto simp: analyse_sample_def metrics_failed)
  next
    case st: (Inr st)
    from run Inr rb st have sent: "sent' = sent"
      by (simp add: analyse_sample_def Let_def split: if_splits)
    from run m Inr rb st have
      "timeToLiveDistribution m = timeToLiveDistribution st"
      "typeDistribution m = typeDistribution st"
      "encodingDistribution m = encodingDistribution st"
      "sampledCount m = length sampledKeys"
      "topKeys m = take TOP_KEYS_COUNT (sort_key (\<lambda>e. - bytes e) (keySizes st))"
      "noTimeToLivePercent m =
        (if length sampledKeys > 0
         then fmul (fdiv (of_nat (none (timeToLiveDistribution st))) (of_nat (length sampledKeys))) 100 else 0)"
      by (auto simp: analyse_sample_def Let_def split: if_splits)
    moreover from run m Inr rb st have
      "status result = (if noTimeToLivePercent m \<ge> 50 then Warning else Ok)"
      "findings result =
       (if noTimeToLivePercent m \<ge> 50
        then [formatPercent (noTimeToLivePercent m)
                @ '' of sampled keys have no TTL - potential memory growth risk'']
        else [])"
      by (auto simp: analyse_sample_def Let_def NO_TTL_WARNING_PERCENT_def split: if_splits)
    ultimately show ?thesis
      using that[of sampledKeys st] Inr rb st sent by simp
  qed
qed

lemma trim_sample_Inr:
  assumes "trim_sample mx scanned = Inr sampledKeys"
  shows "sampledKeys = take (nat mx) scanned"
    and "length sampledKeys = min (length scanned) (nat mx)"
  using assms by (auto simp: trim_sample_def split: if_splits)

lemma runKeyPatternCheck_SampledE:
  assumes run: "runKeyPatternCheck r scanCount = Some (result, sent)"
    and m: "metrics result = Some (Sampled m)"
  obtains dbs nk ne scanned cursors batches_sent where
    "scan_loop r (scanCount_or_default scanCount) [] ''0'' [] = Some (Inr scanned, cursors)"
    "analyse_sample r (scanCount_or_default scanCount) dbs nk ne scanned = (result, batches_sent)"
    "sent = INFO ''keyspace'' # map SCAN cursors @ map PIPELINE batches_sent"
proof (cases "info_keyspace r")
  case (Inl e)
  with run m show ?thesis
    by (auto simp: runKeyPatternCheck_def metrics_failed)
next
  case (Inr keyspaceInfo)
  let ?dbs = "filter (\<lambda>(name, keysCount, expires). take 2 name = ''db'') keyspaceInfo"
  let ?nk = "sum_list (map (\<lambda>(name, keysCount, expires). keysCount) ?dbs)"
  let ?ne = "sum_list (map (\<lambda>(name, keysCount, expires). expires) ?dbs)"
  let ?mx = "scanCount_or_default scanCount"
  have nz: "?nk \<noteq> 0"
  proof
    assume "?nk = 0"
    with run Inr have "metrics result = Some (Empty_keyspace ?dbs)"
      by (auto simp: runKeyPatternCheck_def Let_def)
    with m show False by simp
  qed
  from run Inr nz have run': "(case scan_loop r ?mx [] ''0'' [] of
               None \<Rightarrow> None
             | Some (Inl e, cursors) \<Rightarrow>
                 Some (failed ''KEY PATTERN ANALYSIS'' ''Key pattern'' [] e,
                       INFO ''keyspace'' # map SCAN cursors)
             | Some (Inr scanned, cursors) \<Rightarrow>
                 (case analyse_sample r ?mx ?dbs ?nk ?ne scanned of
                    (result, sent) \<Rightarrow>
                      Some (result, INFO ''keyspace'' # map SCAN cursors @ map PIPELINE sent)))
       = Some (result, sent)"
    by (simp add: runKeyPatternCheck_def Let_def)
  then obtain outcome cursors where sl: "scan_loop r ?mx [] ''0'' [] = Some (outcome, cursors)"
    by (cases "scan_loop r ?mx [] ''0'' []") auto
  show ?thesis
  proof (cases outcome)
    case (Inl e)
    with run' sl m show ?thesis by (auto simp: metrics_failed)
  next
    case scanned: (Inr scanned)
    obtain res bs where an: "analyse_sample r ?mx ?dbs ?nk ?ne scanned = (res, bs)"
      by (cases "analyse_sample r ?mx ?dbs ?nk ?ne scanned")
    with run' sl scanned have "res = result" "sent = INFO ''keyspace'' # map SCAN cursors @ map PIPELINE bs"
      by simp_all
    with that[of scanned cursors ?dbs ?nk ?ne bs] sl scanned an show ?thesis by simp
  qed
qed

lemma count_ttl_one_bucket:
  "count_ttl d t \<in> {d\<lparr>none := none d + 1\<rparr>, d\<lparr>under1Hour := under1Hour d + 1\<rparr>,
      d\<lparr>from1HourTo24Hours := from1HourTo24Hours d + 1\<rparr>,
      d\<lparr>from1DayTo7Days := from1DayTo7Days d + 1\<rparr>, d\<lparr>over7Days := over7Days d + 1\<rparr>}"
  by (simp add: count_ttl_def split: option.splits)

lemma ttl_total_initial: "ttl_total (timeToLiveDistribution initial_state) = 0"
  by (simp add: initial_state_def ttl_total_def)

lemma keySizes_initial: "keySizes initial_state = []"
  by (simp add: initial_state_def)

lemma sampled_run:
  assumes run: "runKeyPatternCheck r scanCount = Some (result, sent)"
    and m: "metrics result = Some (Sampled m)"
  obtains scanned cursors and st :: sample_state where
    "scan_loop r (scanCount_or_default scanCount) [] ''0'' [] = Some (Inr scanned, cursors)"
    "sampledCount m = min (length scanned) (nat (scanCount_or_default scanCount))"
    "ttl_total (timeToLiveDistribution m) = sampledCount m"
    "map key (keySizes st) = take (nat (scanCount_or_default scanCount)) scanned"
    "topKeys m = take TOP_KEYS_COUNT (sort_key (\<lambda>e. - bytes e) (keySizes st))"
    "noTimeToLivePercent m =
       (if sampledCount m > 0
        then fmul (fdiv (of_nat (none (timeToLiveDistribution m))) (of_nat (sampledCount m))) 100 else 0)"
    "status result = (if noTimeToLivePercent m \<ge> 50 then Warning else Ok)"
    "findings result =
       (if noTimeToLivePercent m \<ge> 50
        then [formatPercent (noTimeToLivePercent m)
                @ '' of sampled keys have no TTL - potential memory growth risk'']
        else [])"
proof -
  from run m obtain dbs nk ne scanned cursors bs where
    sl: "scan_loop r (scanCount_or_default scanCount) [] ''0'' [] = Some (Inr scanned, cursors)"
    and an: "analyse_sample r (scanCount_or_default scanCount) dbs nk ne scanned = (result, bs)"
    by (rule runKeyPatternCheck_SampledE)
  from an m obtain sampledKeys st where
    tr: "trim_sample (scanCount_or_default scanCount) scanned = Inr sampledKeys"
    and rb: "run_batches r 0 (batches PIPELINE_BATCH_SIZE sampledKeys) initial_state = (Inr st, bs)"
    and eqs: "timeToLiveDistribution m = timeToLiveDistribution st"
      "sampledCount m = length sampledKeys"
      "topKeys m = take TOP_KEYS_COUNT (sort_key (\<lambda>e. - bytes e) (keySizes st))"
      "noTimeToLivePercent m =
       (if length sampledKeys > 0
        then fmul (fdiv (of_nat (none (timeToLiveDistribution st))) (of_nat (length sampledKeys))) 100 else 0)"
      "status result = (if noTimeToLivePercent m \<ge> 50 then Warning else Ok)"
      "findings result =
       (if noTimeToLivePercent m \<ge> 50
        then [formatPercent (noTimeToLivePercent m)
                @ '' of sampled keys have no TTL - potential memory growth risk'']
        else [])"
    by (rule analyse_sample_SampledE)
  have cb: "concat (batches PIPELINE_BATCH_SIZE sampledKeys) = sampledKeys"
    by (rule concat_batches) (simp add: PIPELINE_BATCH_SIZE_def)
  from run_batches_done[OF rb] cb
  have tot: "ttl_total (timeToLiveDistribution st) = length sampledKeys"
    and keys: "map key (keySizes st) = sampledKeys"
    by (simp_all add: ttl_total_initial keySizes_initial)
  show ?thesis
    using that[of scanned cursors st] sl trim_sample_Inr[OF tr] eqs tot keys
    by simp
qed

lemma leaky_run:
  "runKeyPatternCheck leaky_redis (Some 1000) = Some (leaky_section, leaky_commands)"
  by code_simp

lemma leaky_section_metrics: "metrics leaky_section = Some (Sampled leaky_metrics)"
  by (simp add: leaky_section_def)

text \<open>
  Claim C3. In every key-sampling run that returns sampled metrics, the counts of the five TTL
  buckets (no expiry, under 1 hour, 1 hour to 1 day, 1 day to 7 days, over 7 days) add up to
  the number of keys of the truncated sample, which is the smaller of the number of keys the
  scan returned and the sample size asked for; and every key adds one to exactly one bucket.
\<close>

theorem ttl_buckets_sum_to_sample:
  assumes "runKeyPatternCheck r scanCount = Some (result, sent)"
    and "metrics result = Some (Sampled m)"
  shows "none (timeToLiveDistribution m) + under1Hour (timeToLiveDistribution m)
           + from1HourTo24Hours (timeToLiveDistribution m)
           + from1DayTo7Days (timeToLiveDistribution m) + over7Days (timeToLiveDistribution m)
         = sampledCount m
       \<and> (\<exists>scanned cursors.
             scan_loop r (scanCount_or_default scanCount) [] ''0'' [] = Some (Inr scanned, cursors)
           \<and> sampledCount m = min (length scanned) (nat (scanCount_or_default scanCount)))
       \<and> count_ttl d t \<in> {d\<lparr>none := none d + 1\<rparr>, d\<lparr>under1Hour := under1Hour d + 1\<rparr>,
             d\<lparr>from1HourTo24Hours := from1HourTo24Hours d + 1\<rparr>,
             d\<lparr>from1DayTo7Days := from1DayTo7Days d + 1\<rparr>, d\<lparr>over7Days := over7Days d + 1\<rparr>}"
proof -
  from assms obtain scanned cursors where
    "scan_loop r (scanCount_or_default scanCount) [] ''0'' [] = Some (Inr scanned, cursors)"
    "sampledCount m = min (length scanned) (nat (scanCount_or_default scanCount))"
    "ttl_total (timeToLiveDistribution m) = sampledCount m"
    by (rule sampled_run)
  then show ?thesis
    using count_ttl_one_bucket[of d t] by (auto simp: ttl_total_def)
qed

theorem ttl_buckets_sum_to_sample_witness:
  "runKeyPatternCheck leaky_redis (Some 1000) = Some (leaky_section, leaky_commands)
   \<and> metrics leaky_section = Some (Sampled leaky_metrics)
   \<and> none (timeToLiveDistribution leaky_metrics) + under1Hour (timeToLiveDistribution leaky_metrics)
       + from1HourTo24Hours (timeToLiveDistribution leaky_metrics)
       + from1DayTo7Days (timeToLiveDistribution leaky_metrics)
       + over7Days (timeToLiveDistribution leaky_metrics)
     = sampledCount leaky_metrics
   \<and> sampledCount leaky_metrics = 5"
proof -
  note inst = ttl_buckets_sum_to_sample[OF leaky_run leaky_section_metrics, THEN conjunct1]
  have "sampledCount leaky_metrics = 5" by (simp add: leaky_metrics_def)
  with leaky_run leaky_section_metrics inst show ?thesis by (intro conjI)
qed

lemma sorted_take_sort_key_desc:
  "sorted_wrt (\<lambda>a b. bytes a \<ge> bytes b) (take n (sort_key (\<lambda>e. - bytes e) (xs :: key_size list)))"
proof -
  have "sorted (map (\<lambda>e. - bytes e) (sort_key (\<lambda>e. - bytes e) xs))"
    by (rule sorted_sort_key)
  then have "sorted_wrt (\<lambda>a b. - bytes a \<le> - bytes b) (sort_key (\<lambda>e. - bytes e) xs)"
    by (simp add: sorted_map)
  then have "sorted_wrt (\<lambda>a b. bytes a \<ge> bytes b) (sort_key (\<lambda>e. - bytes e) xs)"
    by simp
  then show ?thesis
    by (rule sorted_wrt_take)
qed

lemma ties_in_encounter_order:
  "filter (\<lambda>e. bytes e = b) (sort_key (\<lambda>e. - bytes e) (xs :: key_size list))
     = filter (\<lambda>e. bytes e = b) xs"
  using sort_key_stable[of "\<lambda>e. - bytes e" "- b" xs] by simp

text \<open>
  Claim C4, as amended. In every key-sampling run that returns sampled metrics, the list of
  top keys is in order of non-increasing size, it is the first 20 entries of the stable sort by
  descending size of the sampled keys in the order the scan returned them (so keys of equal
  size keep that order), and its length is the smaller of 20 and the number of keys sampled,
  which is the smaller of the number of keys the scan returned and the sample size asked for.
\<close>

theorem top_keys_sorted_and_bounded:
  assumes "runKeyPatternCheck r scanCount = Some (result, sent)"
    and "metrics result = Some (Sampled m)"
  shows "sorted_wrt (\<lambda>a b. bytes a \<ge> bytes b) (topKeys m)
       \<and> length (topKeys m) = min (sampledCount m) TOP_KEYS_COUNT
       \<and> (\<exists>scanned cursors entries.
             scan_loop r (scanCount_or_default scanCount) [] ''0'' [] = Some (Inr scanned, cursors)
           \<and> sampledCount m = min (length scanned) (nat (scanCount_or_default scanCount))
           \<and> map key entries = take (nat (scanCount_or_default scanCount)) scanned
           \<and> topKeys m = take TOP_KEYS_COUNT (sort_key (\<lambda>e. - bytes e) entries)
           \<and> (\<forall>b. filter (\<lambda>e. bytes e = b) (sort_key (\<lambda>e. - bytes e) entries)
                   = filter (\<lambda>e. bytes e = b) entries))"
proof -
  from assms obtain scanned cursors and st :: sample_state where
    sl: "scan_loop r (scanCount_or_default scanCount) [] ''0'' [] = Some (Inr scanned, cursors)"
    and sc: "sampledCount m = min (length scanned) (nat (scanCount_or_default scanCount))"
    and keys: "map key (keySizes st) = take (nat (scanCount_or_default scanCount)) scanned"
    and top: "topKeys m = take TOP_KEYS_COUNT (sort_key (\<lambda>e. - bytes e) (keySizes st))"
    by (rule sampled_run)
  have len: "length (keySizes st) = sampledCount m"
    using arg_cong[OF keys, of length] sc by simp
  have 1: "sorted_wrt (\<lambda>a b. bytes a \<ge> bytes b) (topKeys m)"
    unfolding top by (rule sorted_take_sort_key_desc)
  have 2: "length (topKeys m) = min (sampledCount m) TOP_KEYS_COUNT"
    unfolding top using len by simp
  have 3: "\<forall>b. filter (\<lambda>e. bytes e = b) (sort_key (\<lambda>e. - bytes e) (keySizes st))
                   = filter (\<lambda>e. bytes e = b) (keySizes st)"
    by (simp add: ties_in_encounter_order)
  from 1 2 3 sl sc keys top show ?thesis by blast
qed

theorem top_keys_sorted_and_bounded_witness:
  "runKeyPatternCheck leaky_redis (Some 1000) = Some (leaky_section, leaky_commands)
   \<and> metrics leaky_section = Some (Sampled leaky_metrics)
   \<and> sorted_wrt (\<lambda>a b. bytes a \<ge> bytes b) (topKeys leaky_metrics)
   \<and> length (topKeys leaky_metrics) = min (sampledCount leaky_metrics) TOP_KEYS_COUNT
   \<and> map bytes (topKeys leaky_metrics) = [2048, 512, 64, 64, 64]"
proof -
  note inst = top_keys_sorted_and_bounded[OF leaky_run leaky_section_metrics]
  have "map bytes (topKeys leaky_metrics) = [2048, 512, 64, 64, 64]"
    by (simp add: leaky_metrics_def)
  with leaky_run leaky_section_metrics inst[THEN conjunct1] inst[THEN conjunct2, THEN conjunct1]
  show ?thesis by (intro conjI)
qed

theorem top_keys_counterexample:
  "top_key_bytes (runKeyPatternCheck leaky_redis (Some 1000)) = [2048, 512, 64, 64, 64]
   \<and> length (top_key_bytes (runKeyPatternCheck leaky_redis (Some 1000)))
       \<noteq> min (nat (scanCount_or_default (Some 1000))) TOP_KEYS_COUNT
   \<and> \<not> sorted_wrt (>) (top_key_bytes (runKeyPatternCheck leaky_redis (Some 1000)))"
proof -
  have v: "top_key_bytes (runKeyPatternCheck leaky_redis (Some 1000)) = [2048, 512, 64, 64, 64]"
    by (simp add: leaky_run top_key_bytes_def sampled_metrics_def leaky_section_def leaky_metrics_def)
  show ?thesis
    unfolding v by (simp add: scanCount_or_default_def TOP_KEYS_COUNT_def)
qed

text \<open>
  Claim C5. When the keyspace section reports a total of zero keys over its \<^verbatim>\<open>db\<close> lines, the
  check returns at once a section of status ok with the single finding that no keys were found,
  and the only command it has sent is the \<^verbatim>\<open>INFO keyspace\<close> probe: no scan, no pipeline.
\<close>

theorem empty_keyspace_skips_sampling:
  assumes "info_keyspace r = Inr keyspaceInfo"
    and "sum_list (map (\<lambda>(name, keysCount, expires). keysCount)
           (filter (\<lambda>(name, keysCount, expires). take 2 name = ''db'') keyspaceInfo)) = 0"
  shows "runKeyPatternCheck r scanCount =
      Some (\<lparr>title = ''KEY PATTERN ANALYSIS'', status = Ok,
              metrics = Some (Empty_keyspace
                (filter (\<lambda>(name, keysCount, expires). take 2 name = ''db'') keyspaceInfo)),
              findings = [''No keys found in this Redis instance'']\<rparr>,
            [INFO ''keyspace''])"
  using assms by (simp add: runKeyPatternCheck_def Let_def)

theorem empty_keyspace_skips_sampling_witness:
  "info_keyspace empty_redis = Inr [(''db0'', 0, 0)]
   \<and> sum_list (map (\<lambda>(name, keysCount, expires). keysCount)
           (filter (\<lambda>(name, keysCount, expires). take 2 name = ''db'')
              [(''db0'', 0::int, 0::int)])) = 0
   \<and> runKeyPatternCheck empty_redis (Some 1000) =
      Some (\<lparr>title = ''KEY PATTERN ANALYSIS'', status = Ok,
              metrics = Some (Empty_keyspace [(''db0'', 0, 0)]),
              findings = [''No keys found in this Redis instance'']\<rparr>,
            [INFO ''keyspace''])"
proof -
  have k: "info_keyspace empty_redis = Inr [(''db0'', 0, 0)]"
    by (simp add: empty_redis_def)
  have z: "sum_list (map (\<lambda>(name, keysCount, expires). keysCount)
           (filter (\<lambda>(name, keysCount, expires). take 2 name = ''db'') [(''db0'', 0::int, 0::int)])) = 0"
    by simp
  have f: "filter (\<lambda>(name, keysCount, expires). take 2 name = ''db'') [(''db0'', 0::int, 0::int)]
      = [(''db0'', 0, 0)]"
    by simp
  have run: "runKeyPatternCheck empty_redis (Some 1000) =
      Some (\<lparr>title = ''KEY PATTERN ANALYSIS'', status = Ok,
              metrics = Some (Empty_keyspace [(''db0'', 0, 0)]),
              findings = [''No keys found in this Redis instance'']\<rparr>,
            [INFO ''keyspace''])"
    using empty_keyspace_skips_sampling[OF k z, of "Some 1000"] by (simp only: f)
  from k z run show ?thesis by (intro conjI)
qed








lemma no_ttl_rule:
  assumes run: "runKeyPatternCheck r scanCount = Some (result, sent)"
    and m: "metrics result = Some (Sampled m)"
    and small: "sampledCount m \<le> 2 ^ 53"
  shows "noTimeToLivePercent m =
       (if sampledCount m > 0
        then fmul (fdiv (of_nat (none (timeToLiveDistribution m))) (of_nat (sampledCount m))) 100
        else 0)"
    and "(50 \<le> noTimeToLivePercent m)
       = (0 < sampledCount m \<and> sampledCount m \<le> 2 * none (timeToLiveDistribution m))"
    and "status result = (if noTimeToLivePercent m \<ge> 50 then Warning else Ok)"
    and "findings result =
       (if noTimeToLivePercent m \<ge> 50
        then [formatPercent (noTimeToLivePercent m)
                @ '' of sampled keys have no TTL - potential memory growth risk'']
        else [])"
    and "0 \<le> noTimeToLivePercent m" and "double (noTimeToLivePercent m) = noTimeToLivePercent m"
proof -
  from run m obtain
    p: "noTimeToLivePercent m =
       (if sampledCount m > 0
        then fmul (fdiv (of_nat (none (timeToLiveDistribution m))) (of_nat (sampledCount m))) 100
        else 0)"
    and s: "status result = (if noTimeToLivePercent m \<ge> 50 then Warning else Ok)"
    and f: "findings result =
       (if noTimeToLivePercent m \<ge> 50
        then [formatPercent (noTimeToLivePercent m)
                @ '' of sampled keys have no TTL - potential memory growth risk'']
        else [])"
    by (rule sampled_run)
  show "noTimeToLivePercent m =
       (if sampledCount m > 0
        then fmul (fdiv (of_nat (none (timeToLiveDistribution m))) (of_nat (sampledCount m))) 100
        else 0)" by (rule p)
  show "status result = (if noTimeToLivePercent m \<ge> 50 then Warning else Ok)" by (rule s)
  show "findings result =
       (if noTimeToLivePercent m \<ge> 50
        then [formatPercent (noTimeToLivePercent m)
                @ '' of sampled keys have no TTL - potential memory growth risk'']
        else [])" by (rule f)
  show "(50 \<le> noTimeToLivePercent m)
       = (0 < sampledCount m \<and> sampledCount m \<le> 2 * none (timeToLiveDistribution m))"
  proof (cases "0 < sampledCount m")
    case False
    then show ?thesis using p by simp
  next
    case True
    from small have "int (sampledCount m) \<le> int (2 ^ 53)" by (simp only: of_nat_le_iff)
    then have b: "int (sampledCount m) \<le> 2 ^ 53" by simp
    have "(50 \<le> fmul (fdiv (of_int (int (none (timeToLiveDistribution m))))
              (of_int (int (sampledCount m)))) 100)
        = (int (sampledCount m) \<le> 2 * int (none (timeToLiveDistribution m)))"
      using True b by (intro percent_at_least_50) auto
    moreover have "(int (sampledCount m) \<le> 2 * int (none (timeToLiveDistribution m)))
        = (sampledCount m \<le> 2 * none (timeToLiveDistribution m))"
      by linarith
    ultimately show ?thesis using True p by simp
  qed
  show "0 \<le> noTimeToLivePercent m"
    by (simp add: p fmul_def fdiv_def double_nonneg)
  show "double (noTimeToLivePercent m) = noTimeToLivePercent m"
    by (simp add: p fmul_def)
qed



lemma map_of_replace:
  "map_of obj name = Some g \<Longrightarrow>
   map_of (map (\<lambda>(k, v). if k = name then (k, g') else (k, v)) obj) name = Some g'"
  by (induction obj) (auto split: if_splits)

lemma map_of_appended:
  "map_of obj name = None \<Longrightarrow> map_of (obj @ [(name, g)]) name = Some g"
  by (simp add: map_add_def)

lemma add_to_group_counts:
  assumes "name \<notin> set object_prototype_names"
  shows "group_count (add_to_group obj name b) name = group_count obj name + 1"
    and "group_bytes (add_to_group obj name b) name = group_bytes obj name + b"
proof -
  show "group_count (add_to_group obj name b) name = group_count obj name + 1"
  proof (cases "map_of obj name")
    case None
    with assms show ?thesis
      by (simp add: add_to_group_def group_count_def map_add_def)
  next
    case (Some g)
    with assms show ?thesis
      by (simp add: add_to_group_def group_count_def map_of_replace)
  qed
  show "group_bytes (add_to_group obj name b) name = group_bytes obj name + b"
  proof (cases "map_of obj name")
    case None
    with assms show ?thesis
      by (simp add: add_to_group_def group_bytes_def map_add_def)
  next
    case (Some g)
    with assms show ?thesis
      by (simp add: add_to_group_def group_bytes_def map_of_replace)
  qed
qed

lemma add_one_counts: "name_count (add_one obj name) name = name_count obj name + 1"
proof (cases "map_of obj name")
  case None
  then show ?thesis by (simp add: add_one_def name_count_def map_add_def)
next
  case (Some n)
  then show ?thesis by (simp add: add_one_def name_count_def map_of_replace)
qed

lemma unknown_not_inherited: "''unknown'' \<notin> set object_prototype_names"
  by (simp add: object_prototype_names_def)

lemma process_key_fields:
  "typeDistribution (process_key st k reply) =
     add_to_group (typeDistribution st) (or_unknown (type_reply reply)) (or_zero (memory_reply reply))"
  "encodingDistribution (process_key st k reply) =
     add_one (encodingDistribution st) (or_unknown (encoding_reply reply))"
  "prefixGroups (process_key st k reply) =
     add_to_group (prefixGroups st) (key_prefix k) (or_zero (memory_reply reply))"
  by (simp_all add: process_key_def Let_def)

lemma run_batches_succeeds:
  assumes "\<forall>n batch. \<exists>replies. pipeline_exec r n batch = Inr replies"
  shows "\<exists>st'. run_batches r n bs st = (Inr st', bs)"
proof (induction bs arbitrary: n st)
  case Nil
  show ?case by simp
next
  case (Cons batch rest)
  from assms obtain replies where ex: "pipeline_exec r n batch = Inr replies" by blast
  from Cons[of "Suc n" "process_batch st batch replies"] obtain st' where
    "run_batches r (Suc n) rest (process_batch st batch replies) = (Inr st', rest)" by blast
  with ex show ?case by simp
qed

lemma analyse_sample_succeeds:
  assumes ok: "\<forall>n batch. \<exists>replies. pipeline_exec r n batch = Inr replies" and mx: "0 \<le> mx"
  shows "\<exists>result sent m. analyse_sample r mx dbs nk ne scanned = (result, sent)
      \<and> metrics result = Some (Sampled m) \<and> status result \<noteq> Critical
      \<and> sampledCount m = min (length scanned) (nat mx)"
proof -
  from mx have tr: "trim_sample mx scanned = Inr (take (nat mx) scanned)"
    by (auto simp: trim_sample_def)
  from run_batches_succeeds[OF ok] obtain st where
    "run_batches r 0 (batches PIPELINE_BATCH_SIZE (take (nat mx) scanned)) initial_state
       = (Inr st, batches PIPELINE_BATCH_SIZE (take (nat mx) scanned))"
    by blast
  with tr show ?thesis
    by (simp add: analyse_sample_def Let_def)
qed

lemma runKeyPatternCheck_succeeds:
  assumes ks: "info_keyspace r = Inr keyspaceInfo"
    and nz: "sum_list (map (\<lambda>(name, keysCount, expires). keysCount)
           (filter (\<lambda>(name, keysCount, expires). take 2 name = ''db'') keyspaceInfo)) \<noteq> 0"
    and sl: "scan_loop r (scanCount_or_default scanCount) [] ''0'' [] = Some (Inr scanned, cursors)"
    and mx: "0 \<le> scanCount_or_default scanCount"
    and ok: "\<forall>n batch. \<exists>replies. pipeline_exec r n batch = Inr replies"
  shows "\<exists>result sent m. runKeyPatternCheck r scanCount = Some (result, sent)
      \<and> metrics result = Some (Sampled m) \<and> status result \<noteq> Critical
      \<and> sampledCount m = min (length scanned) (nat (scanCount_or_default scanCount))"
proof -
  let ?dbs = "filter (\<lambda>(name, keysCount, expires). take 2 name = ''db'') keyspaceInfo"
  let ?nk = "sum_list (map (\<lambda>(name, keysCount, expires). keysCount) ?dbs)"
  let ?ne = "sum_list (map (\<lambda>(name, keysCount, expires). expires) ?dbs)"
  from analyse_sample_succeeds[OF ok mx, of ?dbs ?nk ?ne scanned] obtain result sent m where
    an: "analyse_sample r (scanCount_or_default scanCount) ?dbs ?nk ?ne scanned = (result, sent)"
    and rest: "metrics result = Some (Sampled m)" "status result \<noteq> Critical"
      "sampledCount m = min (length scanned) (nat (scanCount_or_default scanCount))"
    by blast
  from ks nz sl an have "runKeyPatternCheck r scanCount
      = Some (result, INFO ''keyspace'' # map SCAN cursors @ map PIPELINE sent)"
    by (simp add: runKeyPatternCheck_def Let_def)
  with rest show ?thesis by blast
qed

text \<open>
  Claim C8, as amended. A key whose replies are missing or failed is not dropped: it counts
  under the type \<^verbatim>\<open>unknown\<close> with 0 bytes, under the encoding \<^verbatim>\<open>unknown\<close>, in the group of its
  prefix with 0 bytes (when the prefix is not the name of a member of \<^verbatim>\<open>Object.prototype\<close>),
  as a candidate top key of size 0, and in one TTL bucket, which is not the no-expiry bucket.
  The batch is not aborted: when the keyspace is not empty, the scan returns, the sample size is
  not negative and every pipeline resolves, whatever entries it holds, the check returns
  sampled metrics with a status that is not critical, and the sample size counts every key.
\<close>

theorem missing_replies_use_defaults:
  "(ttl_reply reply = None \<longrightarrow>
      none (timeToLiveDistribution (process_key st k reply)) = none (timeToLiveDistribution st)
    \<and> ttl_total (timeToLiveDistribution (process_key st k reply))
        = ttl_total (timeToLiveDistribution st) + 1)
   \<and> (type_reply reply = None \<longrightarrow>
        group_count (typeDistribution (process_key st k reply)) ''unknown''
          = group_count (typeDistribution st) ''unknown'' + 1)
   \<and> (type_reply reply = None \<and> memory_reply reply = None \<longrightarrow>
        group_bytes (typeDistribution (process_key st k reply)) ''unknown''
          = group_bytes (typeDistribution st) ''unknown'')
   \<and> (encoding_reply reply = None \<longrightarrow>
        name_count (encodingDistribution (process_key st k reply)) ''unknown''
          = name_count (encodingDistribution st) ''unknown'' + 1)
   \<and> (memory_reply reply = None \<longrightarrow>
        keySizes (process_key st k reply)
          = keySizes st @ [\<lparr>key = k, type = or_unknown (type_reply reply), bytes = 0\<rparr>])
   \<and> (memory_reply reply = None \<and> key_prefix k \<notin> set object_prototype_names \<longrightarrow>
        group_count (prefixGroups (process_key st k reply)) (key_prefix k)
          = group_count (prefixGroups st) (key_prefix k) + 1
      \<and> group_bytes (prefixGroups (process_key st k reply)) (key_prefix k)
          = group_bytes (prefixGroups st) (key_prefix k))
   \<and> (info_keyspace r = Inr keyspaceInfo
      \<and> sum_list (map (\<lambda>(name, keysCount, expires). keysCount)
           (filter (\<lambda>(name, keysCount, expires). take 2 name = ''db'') keyspaceInfo)) \<noteq> 0
      \<and> scan_loop r (scanCount_or_default scanCount) [] ''0'' [] = Some (Inr scanned, cursors)
      \<and> 0 \<le> scanCount_or_default scanCount
      \<and> (\<forall>n batch. \<exists>replies. pipeline_exec r n batch = Inr replies) \<longrightarrow>
        (\<exists>result sent m. runKeyPatternCheck r scanCount = Some (result, sent)
          \<and> metrics result = Some (Sampled m) \<and> status result \<noteq> Critical
          \<and> sampledCount m = min (length scanned) (nat (scanCount_or_default scanCount))))"
proof (intro conjI impI)
  assume "ttl_reply reply = None"
  then show "none (timeToLiveDistribution (process_key st k reply)) = none (timeToLiveDistribution st)"
    by (simp add: process_key_ttl none_count_ttl)
  show "ttl_total (timeToLiveDistribution (process_key st k reply))
        = ttl_total (timeToLiveDistribution st) + 1"
    by (simp add: process_key_ttl ttl_total_count_ttl)
next
  assume "type_reply reply = None"
  then show "group_count (typeDistribution (process_key st k reply)) ''unknown''
          = group_count (typeDistribution st) ''unknown'' + 1"
    by (simp add: process_key_fields or_unknown_def add_to_group_counts[OF unknown_not_inherited])
next
  assume "type_reply reply = None \<and> memory_reply reply = None"
  then show "group_bytes (typeDistribution (process_key st k reply)) ''unknown''
          = group_bytes (typeDistribution st) ''unknown''"
    by (simp add: process_key_fields or_unknown_def or_zero_def
        add_to_group_counts[OF unknown_not_inherited])
next
  assume "encoding_reply reply = None"
  then show "name_count (encodingDistribution (process_key st k reply)) ''unknown''
          = name_count (encodingDistribution st) ''unknown'' + 1"
    by (simp add: process_key_fields or_unknown_def add_one_counts)
next
  assume "memory_reply reply = None"
  then show "keySizes (process_key st k reply)
          = keySizes st @ [\<lparr>key = k, type = or_unknown (type_reply reply), bytes = 0\<rparr>]"
    by (simp add: process_key_keySizes or_zero_def)
next
  assume a: "memory_reply reply = None \<and> key_prefix k \<notin> set object_prototype_names"
  then have p: "key_prefix k \<notin> set object_prototype_names" and m: "memory_reply reply = None"
    by simp_all
  from m show "group_count (prefixGroups (process_key st k reply)) (key_prefix k)
          = group_count (prefixGroups st) (key_prefix k) + 1"
    by (simp add: process_key_fields add_to_group_counts[OF p])
  from m show "group_bytes (prefixGroups (process_key st k reply)) (key_prefix k)
          = group_bytes (prefixGroups st) (key_prefix k)"
    by (simp add: process_key_fields or_zero_def add_to_group_counts[OF p])
next
  assume a: "info_keyspace r = Inr keyspaceInfo
      \<and> sum_list (map (\<lambda>(name, keysCount, expires). keysCount)
           (filter (\<lambda>(name, keysCount, expires). take 2 name = ''db'') keyspaceInfo)) \<noteq> 0
      \<and> scan_loop r (scanCount_or_default scanCount) [] ''0'' [] = Some (Inr scanned, cursors)
      \<and> 0 \<le> scanCount_or_default scanCount
      \<and> (\<forall>n batch. \<exists>replies. pipeline_exec r n batch = Inr replies)"
  show "\<exists>result sent m. runKeyPatternCheck r scanCount = Some (result, sent)
          \<and> metrics result = Some (Sampled m) \<and> status result \<noteq> Critical
          \<and> sampledCount m = min (length scanned) (nat (scanCount_or_default scanCount))"
    by (rule runKeyPatternCheck_succeeds[OF a[THEN conjunct1] a[THEN conjunct2, THEN conjunct1]
          a[THEN conjunct2, THEN conjunct2, THEN conjunct1]
          a[THEN conjunct2, THEN conjunct2, THEN conjunct2, THEN conjunct1]
          a[THEN conjunct2, THEN conjunct2, THEN conjunct2, THEN conjunct2]])
qed

lemma lossy_scan:
  "scan_loop lossy_redis (scanCount_or_default (Some 2)) [] ''0'' []
     = Some (Inr [''user:1'', ''user:2'', ''session:9''], [''0''])"
  by code_simp

theorem missing_replies_use_defaults_witness:
  "ttl_reply no_reply = None \<and> type_reply no_reply = None \<and> memory_reply no_reply = None
   \<and> encoding_reply no_reply = None \<and> key_prefix ''user:1'' \<notin> set object_prototype_names
   \<and> info_keyspace lossy_redis = Inr [(''db0'', 3, 3)]
   \<and> sum_list (map (\<lambda>(name, keysCount, expires). keysCount)
           (filter (\<lambda>(name, keysCount, expires). take 2 name = ''db'') [(''db0'', 3::int, 3::int)])) \<noteq> 0
   \<and> scan_loop lossy_redis (scanCount_or_default (Some 2)) [] ''0'' []
        = Some (Inr [''user:1'', ''user:2'', ''session:9''], [''0''])
   \<and> 0 \<le> scanCount_or_default (Some 2)
   \<and> (\<forall>n batch. \<exists>replies. pipeline_exec lossy_redis n batch = Inr replies)
   \<and> none (timeToLiveDistribution (process_key initial_state ''user:1'' no_reply)) = 0
   \<and> ttl_total (timeToLiveDistribution (process_key initial_state ''user:1'' no_reply)) = 1
   \<and> group_count (typeDistribution (process_key initial_state ''user:1'' no_reply)) ''unknown'' = 1
   \<and> name_count (encodingDistribution (process_key initial_state ''user:1'' no_reply)) ''unknown'' = 1
   \<and> group_count (prefixGroups (process_key initial_state ''user:1'' no_reply)) (key_prefix ''user:1'') = 1
   \<and> (\<exists>result sent m. runKeyPatternCheck lossy_redis (Some 2) = Some (result, sent)
          \<and> metrics result = Some (Sampled m) \<and> status result \<noteq> Critical
          \<and> sampledCount m = min (length [''user:1'', ''user:2'', ''session:9''])
               (nat (scanCount_or_default (Some 2))))"
proof -
  have r: "ttl_reply no_reply = None" "type_reply no_reply = None" "memory_reply no_reply = None"
    "encoding_reply no_reply = None"
    by (simp_all add: no_reply_def)
  have p: "key_prefix ''user:1'' \<notin> set object_prototype_names"
    by code_simp
  have ks: "info_keyspace lossy_redis = Inr [(''db0'', 3, 3)]"
    by (simp add: lossy_redis_def quiet_redis_def)
  have nz: "sum_list (map (\<lambda>(name, keysCount, expires). keysCount)
           (filter (\<lambda>(name, keysCount, expires). take 2 name = ''db'') [(''db0'', 3::int, 3::int)])) \<noteq> 0"
    by simp
  have mx: "0 \<le> scanCount_or_default (Some 2)"
    by (simp add: scanCount_or_default_def)
  have ok: "\<forall>n batch. \<exists>replies. pipeline_exec lossy_redis n batch = Inr replies"
    by (simp add: lossy_redis_def)
  have i: "none (timeToLiveDistribution initial_state) = 0"
    "ttl_total (timeToLiveDistribution initial_state) = 0"
    "group_count (typeDistribution initial_state) ''unknown'' = 0"
    "name_count (encodingDistribution initial_state) ''unknown'' = 0"
    "group_count (prefixGroups initial_state) (key_prefix ''user:1'') = 0"
    by (simp_all add: initial_state_def ttl_total_def group_count_def name_count_def)
  note inst = missing_replies_use_defaults[of no_reply initial_state "''user:1''" lossy_redis
      "[(''db0'', 3, 3)]" "Some 2" "[''user:1'', ''user:2'', ''session:9'']" "[''0'']"]
  note c1 = inst[THEN conjunct1, THEN mp, OF r(1)]
  note c2 = inst[THEN conjunct2, THEN conjunct1, THEN mp, OF r(2)]
  note c4 = inst[THEN conjunct2, THEN conjunct2, THEN conjunct2, THEN conjunct1, THEN mp, OF r(4)]
  note c6 = inst[THEN conjunct2, THEN conjunct2, THEN conjunct2, THEN conjunct2, THEN conjunct2,
      THEN conjunct1, THEN mp, OF conjI[OF r(3) p]]
  note c7 = inst[THEN conjunct2, THEN conjunct2, THEN conjunct2, THEN conjunct2, THEN conjunct2,
      THEN conjunct2, THEN mp, OF conjI[OF ks conjI[OF nz conjI[OF lossy_scan conjI[OF mx ok]]]]]
  have v: "none (timeToLiveDistribution (process_key initial_state ''user:1'' no_reply)) = 0"
    "ttl_total (timeToLiveDistribution (process_key initial_state ''user:1'' no_reply)) = 1"
    "group_count (typeDistribution (process_key initial_state ''user:1'' no_reply)) ''unknown'' = 1"
    "name_count (encodingDistribution (process_key initial_state ''user:1'' no_reply)) ''unknown'' = 1"
    "group_count (prefixGroups (process_key initial_state ''user:1'' no_reply)) (key_prefix ''user:1'') = 1"
    using c1 c2 c4 c6 by (simp_all add: i)
  from r p ks nz lossy_scan mx ok v c7 show ?thesis
    by (intro conjI)
qed

theorem missing_replies_counterexample:
  "map_option typeDistribution (sampled_metrics (runKeyPatternCheck lossy_redis (Some 2)))
     = Some [(''unknown'', \<lparr>count = 2, totalBytes = 0\<rparr>)]
   \<and> map_option encodingDistribution (sampled_metrics (runKeyPatternCheck lossy_redis (Some 2)))
     = Some [(''unknown'', 2)]
   \<and> map_option timeToLiveDistribution (sampled_metrics (runKeyPatternCheck lossy_redis (Some 2)))
     = Some \<lparr>none = 0, under1Hour = 0, from1HourTo24Hours = 0, from1DayTo7Days = 0, over7Days = 2\<rparr>
   \<and> map_option sortedPrefixes (sampled_metrics (runKeyPatternCheck lossy_redis (Some 2)))
     = Some [(''user:*'', \<lparr>count = 2, totalBytes = 0\<rparr>)]
   \<and> map_option sampledCount (sampled_metrics (runKeyPatternCheck lossy_redis (Some 2))) = Some 2"
  by code_simp

section \<open>Properties of the analysis\<close>




lemma overcommitted_analysis:
  "map_option (map_sum id (\<lambda>a. (criticals a, warnings a, exitCode a)))
     (runAnalysis overcommitted_redis scan_options) = Some (Inr (1, 0, 2))"
  by code_simp

text \<open>
  Claim C1. The claim asks that a single run with a critical section exits with 2, and the
  help text of the analyzer promises the same. The code does not do so on a server that holds
  150 MB with \<^verbatim>\<open>maxmemory\<close> at 100 MB. There the memory section is critical, the counts are one
  critical and no warning, and the exit code computed from them is 2; but \<^verbatim>\<open>printMemoryCheck\<close>
  throws a \<^verbatim>\<open>RangeError\<close> from \<^verbatim>\<open>renderBar\<close>, whose ratio of 1.5 leaves the count \<open>-10\<close> for
  the empty part of the bar. The run without flags therefore exits with 1, although the
  connection closes without error, while the same run with \<^verbatim>\<open>--json\<close> exits with 2.
\<close>

theorem single_run_exits_1_with_critical_memory:
  "status (runMemoryCheck overcommitted_redis) = Critical
   \<and> findings (runMemoryCheck overcommitted_redis)
       = [''Memory usage at 150.0% of maxmemory - critically high'']
   \<and> (\<exists>a. runAnalysis overcommitted_redis scan_options = Some (Inr a)
         \<and> criticals a = 1 \<and> warnings a = 0 \<and> exitCode a = 2)
   \<and> printMemoryCheck (runMemoryCheck overcommitted_redis) = Inl ''Invalid count value: -10''
   \<and> quit overcommitted_redis = Inr ()
   \<and> single_run overcommitted_redis scan_options True = Some 1
   \<and> single_run overcommitted_redis json_options True = Some 2"
proof -
  have 1: "status (runMemoryCheck overcommitted_redis) = Critical"
    by code_simp
  have 2: "findings (runMemoryCheck overcommitted_redis)
       = [''Memory usage at 150.0% of maxmemory - critically high'']"
    by code_simp
  have 3: "\<exists>a. runAnalysis overcommitted_redis scan_options = Some (Inr a)
         \<and> criticals a = 1 \<and> warnings a = 0 \<and> exitCode a = 2"
  proof (cases "runAnalysis overcommitted_redis scan_options")
    case None
    with overcommitted_analysis show ?thesis by simp
  next
    case (Some outcome)
    with overcommitted_analysis show ?thesis by (cases outcome) auto
  qed
  have 4: "printMemoryCheck (runMemoryCheck overcommitted_redis) = Inl ''Invalid count value: -10''"
    by code_simp
  have 5: "quit overcommitted_redis = Inr ()"
    by (simp add: overcommitted_redis_def quiet_redis_def)
  have 6: "single_run overcommitted_redis scan_options True = Some 1"
    by code_simp
  have 7: "single_run overcommitted_redis json_options True = Some 2"
    by code_simp
  from 1 2 3 4 5 6 7 show ?thesis by (intro conjI)
qed























end
